theory Spec2Isabelle
  imports Complex_Main "HOL-Library.Word"
begin

section \<open>Tracing without LangChain: the notebook's chat application\<close>

text \<open>
  The notebook \<^verbatim>\<open>tracing-examples/traceable/tracing_without_langchain.ipynb\<close> defines
  a chat application of six Python functions, each decorated with \<^verbatim>\<open>@traceable\<close>:
  \<^verbatim>\<open>call_openai\<close>, \<^verbatim>\<open>argument_generator\<close>, \<^verbatim>\<open>critic\<close>, \<^verbatim>\<open>refiner\<close> and the chains
  \<^verbatim>\<open>argument_chain\<close>, \<^verbatim>\<open>argument_chain2\<close>, \<^verbatim>\<open>argument_chain_3\<close>, and then uses a run
  identifier to attach feedback and to share a run.

  Everything the functions do beyond building values is a call into one of two external
  services: the chat-completion API (with the system clock and the uuid generator on the
  application's side) and the tracing client. Both are parameters of the model: a record
  of functions over two state types, \<open>'w\<close> for the application's side of the world and
  \<open>'t\<close> for the tracing service. Each call into a service is written into an event log,
  in the order in which the calls are made, together with its arguments and its outcome.
\<close>

subsection \<open>Values\<close>

type_synonym UUID = "128 word"

text \<open>A chat message is a Python dict with string keys and string values, kept in the
  order in which the keys are written.\<close>

type_synonym dict = "(string \<times> string) list"

text \<open>Exceptions: the \<^verbatim>\<open>IndexError\<close> of \<^verbatim>\<open>choices[0]\<close> on an empty list, and whatever
  one of the two SDKs raises, identified by its text.\<close>

datatype exn = IndexError | Raised string

text \<open>The response object of the chat-completion API, as far as the notebook reads it:
  \<^verbatim>\<open>response.choices[0].message.content\<close>.\<close>

record ChatMessage =
  role :: string
  content :: string

record Choice =
  message :: ChatMessage

record ChatCompletion =
  choices :: "Choice list"

text \<open>The keyword arguments of \<^verbatim>\<open>openai.ChatCompletion.create\<close>.\<close>

record request =
  model :: string
  messages :: "dict list"
  temperature :: real

text \<open>Python values that are handed to the tracing client as inputs, outputs or
  metadata of a run.\<close>

datatype pyval =
    Str string
  | Integer int
  | Float real
  | Uuid UUID
  | Messages "dict list"
  | Tuple "pyval list"

text \<open>The arguments of the decorator, \<^verbatim>\<open>@traceable(run_type=..., name=..., tags=...,
  metadata=...)\<close>, and the dict a caller may pass as \<^verbatim>\<open>langsmith_extra\<close>.\<close>

record traceable_args =
  run_type :: string
  name :: "string option"
  tags :: "string list option"
  metadata :: "(string \<times> pyval) list option"

record langsmith_extra =
  extra_tags :: "string list option"
  extra_metadata :: "(string \<times> pyval) list option"
  run_id :: "UUID option"

text \<open>The run tree object that the decorator injects; the notebook reads its \<^verbatim>\<open>id\<close>.\<close>

record RunTree =
  id' :: UUID

subsection \<open>The external services and the event log\<close>

record ('w, 't) externals =
  openai_ChatCompletion_create :: "request \<Rightarrow> 'w \<Rightarrow> (exn + ChatCompletion) \<times> 'w"
  datetime_now :: "'w \<Rightarrow> string \<times> 'w"
  uuid4 :: "'w \<Rightarrow> UUID \<times> 'w"
  post_run :: "traceable_args \<Rightarrow> string \<Rightarrow> (string \<times> pyval) list \<Rightarrow> langsmith_extra option
                 \<Rightarrow> 't \<Rightarrow> (exn + RunTree) \<times> 't"
  end_run :: "RunTree \<Rightarrow> exn + pyval \<Rightarrow> 't \<Rightarrow> (exn + unit) \<times> 't"
  client_create_feedback :: "UUID \<Rightarrow> string \<Rightarrow> real option \<Rightarrow> dict option \<Rightarrow> dict option
                 \<Rightarrow> 't \<Rightarrow> (exn + unit) \<times> 't"
  client_share_run :: "UUID \<Rightarrow> 't \<Rightarrow> (exn + string) \<times> 't"

datatype event =
    Chat request "exn + ChatCompletion"
  | Now string
  | Uuid4 UUID
  | Post traceable_args string "(string \<times> pyval) list" "langsmith_extra option" "exn + RunTree"
  | End RunTree "exn + pyval" "exn + unit"
  | Feedback UUID string "real option" "dict option" "dict option" "exn + unit"
  | Share UUID "exn + string"

record ('w, 't) state =
  events :: "event list"
  world :: 'w
  tracer :: 't

text \<open>A computation takes the state and returns either the exception it raised or its
  value, and the state it left.\<close>

type_synonym ('s, 'a) io = "'s \<Rightarrow> (exn + 'a) \<times> 's"

definition return :: "'a \<Rightarrow> ('s, 'a) io" where
  "return v s = (Inr v, s)"

definition raise :: "exn \<Rightarrow> ('s, 'a) io" where
  "raise e s = (Inl e, s)"

text \<open>Sequencing: an exception of the first computation ends the whole.\<close>

definition seq :: "('s, 'a) io \<Rightarrow> ('a \<Rightarrow> ('s, 'b) io) \<Rightarrow> ('s, 'b) io" where
  "seq m f s = (case m s of (Inl e, s') \<Rightarrow> (Inl e, s') | (Inr v, s') \<Rightarrow> f v s')"

text \<open>The calls into the services, each logged with its arguments and outcome.\<close>

definition ChatCompletion_create ::
  "('w, 't) externals \<Rightarrow> request \<Rightarrow> (('w, 't) state, ChatCompletion) io" where
  "ChatCompletion_create E req s =
     (case openai_ChatCompletion_create E req (world s) of
        (out, w) \<Rightarrow> (out, s\<lparr>events := events s @ [Chat req out], world := w\<rparr>))"

definition now :: "('w, 't) externals \<Rightarrow> (('w, 't) state, string) io" where
  "now E s =
     (case datetime_now E (world s) of
        (t, w) \<Rightarrow> (Inr t, s\<lparr>events := events s @ [Now t], world := w\<rparr>))"

definition new_uuid4 :: "('w, 't) externals \<Rightarrow> (('w, 't) state, UUID) io" where
  "new_uuid4 E s =
     (case uuid4 E (world s) of
        (u, w) \<Rightarrow> (Inr u, s\<lparr>events := events s @ [Uuid4 u], world := w\<rparr>))"

definition run_post ::
  "('w, 't) externals \<Rightarrow> traceable_args \<Rightarrow> string \<Rightarrow> (string \<times> pyval) list
     \<Rightarrow> langsmith_extra option \<Rightarrow> (('w, 't) state, RunTree) io" where
  "run_post E args fname inputs extra s =
     (case post_run E args fname inputs extra (tracer s) of
        (out, t) \<Rightarrow> (out, s\<lparr>events := events s @ [Post args fname inputs extra out], tracer := t\<rparr>))"

definition run_end ::
  "('w, 't) externals \<Rightarrow> RunTree \<Rightarrow> exn + pyval \<Rightarrow> (('w, 't) state, unit) io" where
  "run_end E rt result s =
     (case end_run E rt result (tracer s) of
        (out, t) \<Rightarrow> (out, s\<lparr>events := events s @ [End rt result out], tracer := t\<rparr>))"

definition create_feedback ::
  "('w, 't) externals \<Rightarrow> UUID \<Rightarrow> string \<Rightarrow> real option \<Rightarrow> dict option \<Rightarrow> dict option
     \<Rightarrow> (('w, 't) state, unit) io" where
  "create_feedback E rid key score correction source_info s =
     (case client_create_feedback E rid key score correction source_info (tracer s) of
        (out, t) \<Rightarrow>
          (out, s\<lparr>events := events s @ [Feedback rid key score correction source_info out],
                  tracer := t\<rparr>))"

definition share_run :: "('w, 't) externals \<Rightarrow> UUID \<Rightarrow> (('w, 't) state, string) io" where
  "share_run E rid s =
     (case client_share_run E rid (tracer s) of
        (out, t) \<Rightarrow> (out, s\<lparr>events := events s @ [Share rid out], tracer := t\<rparr>))"

subsection \<open>The decorator\<close>

text \<open>
  \<^verbatim>\<open>@traceable\<close> belongs to the tracing SDK. The notebook describes what it does: it
  creates a run tree each time the function is called, with the function's name and
  inputs; it injects the run tree into a function that accepts a \<^verbatim>\<open>run_tree\<close>
  argument; and when the function raises an error or returns a response, that is added
  to the tree. The wrapper then hands the function's own outcome to its caller: the value
  it returned, or the exception it raised, raised again.

  What a failure of the tracing client does to the call is the SDK's affair, and is part
  of the services' record: \<open>post_run\<close> and \<open>end_run\<close> give \<open>Inl e\<close> when the exception
  \<open>e\<close> is let into the call, which then ends with it. The notebook says that the reports
  are made on a background thread; a decorator that keeps every failure of its client
  away from the call is a record that satisfies \<open>tracing_succeeds\<close> below.
\<close>

definition traceable ::
  "('w, 't) externals \<Rightarrow> traceable_args \<Rightarrow> string \<Rightarrow> (string \<times> pyval) list
     \<Rightarrow> langsmith_extra option \<Rightarrow> ('a \<Rightarrow> pyval)
     \<Rightarrow> (RunTree \<Rightarrow> (('w, 't) state, 'a) io) \<Rightarrow> (('w, 't) state, 'a) io" where
  "traceable E args fname inputs extra to_output body s =
     (case run_post E args fname inputs extra s of
        (Inl e, s1) \<Rightarrow> (Inl e, s1)
      | (Inr run_tree, s1) \<Rightarrow>
          (case body run_tree s1 of
             (result, s2) \<Rightarrow>
               (case run_end E run_tree (map_sum (\<lambda>e. e) to_output result) s2 of
                  (Inl e, s3) \<Rightarrow> (Inl e, s3)
                | (Inr _, s3) \<Rightarrow> (result, s3))))"

definition llm :: traceable_args where
  "llm = \<lparr>run_type = ''llm'', name = None, tags = None, metadata = None\<rparr>"

definition chain :: traceable_args where
  "chain = \<lparr>run_type = ''chain'', name = None, tags = None, metadata = None\<rparr>"

subsection \<open>The chat application\<close>

text \<open>
  \<^verbatim>\<open>call_openai(data, model="gpt-3.5-turbo", temperature=0.0)\<close>: an omitted keyword
  argument is \<open>None\<close> here and takes the default of the signature. Every decorated
  function also accepts the wrapper's \<^verbatim>\<open>langsmith_extra\<close>, written last.
\<close>

definition call_openai ::
  "('w, 't) externals \<Rightarrow> dict list \<Rightarrow> string option \<Rightarrow> real option \<Rightarrow> langsmith_extra option
     \<Rightarrow> (('w, 't) state, string) io" where
  "call_openai E data model_arg temperature_arg extra =
     traceable E llm ''call_openai''
       ([(''data'', Messages data)]
          @ (case model_arg of None \<Rightarrow> [] | Some m \<Rightarrow> [(''model'', Str m)])
          @ (case temperature_arg of None \<Rightarrow> [] | Some t \<Rightarrow> [(''temperature'', Float t)]))
       extra Str
       (\<lambda>_. seq (ChatCompletion_create E
                   \<lparr>model = (case model_arg of None \<Rightarrow> ''gpt-3.5-turbo'' | Some m \<Rightarrow> m),
                    messages = data,
                    temperature = (case temperature_arg of None \<Rightarrow> 0 | Some t \<Rightarrow> t)\<rparr>)
               (\<lambda>response.
                  case choices response of
                    [] \<Rightarrow> raise IndexError
                  | c # _ \<Rightarrow> return (content (message c))))"

definition argument_generator ::
  "('w, 't) externals \<Rightarrow> string \<Rightarrow> string \<Rightarrow> langsmith_extra option
     \<Rightarrow> (('w, 't) state, string) io" where
  "argument_generator E query additional_description extra =
     traceable E chain ''argument_generator''
       [(''query'', Str query), (''additional_description'', Str additional_description)]
       extra Str
       (\<lambda>_. seq (now E) (\<lambda>t.
          call_openai E
            [[(''role'', ''system''),
              (''content'', ''You are a debater making an argument on a topic.''
                 @ additional_description
                 @ '' The current time is '' @ t)],
             [(''role'', ''user''),
              (''content'', ''The discussion topic is '' @ query)]]
            None None None))"

definition critic ::
  "('w, 't) externals \<Rightarrow> string \<Rightarrow> langsmith_extra option \<Rightarrow> (('w, 't) state, string) io" where
  "critic E argument extra =
     traceable E chain ''critic'' [(''argument'', Str argument)] extra Str
       (\<lambda>_. call_openai E
          [[(''role'', ''system''),
            (''content'', ''You are a critic.''
               @ [CHR 0x0A]
               @ ''What unresolved questions or criticism do you have after reading the following argument?''
               @ ''Provide a concise summary of your feedback.'')],
           [(''role'', ''system''),
            (''content'', argument)]]
          None None None)"

definition refiner ::
  "('w, 't) externals \<Rightarrow> string \<Rightarrow> string \<Rightarrow> string \<Rightarrow> string \<Rightarrow> langsmith_extra option
     \<Rightarrow> (('w, 't) state, string) io" where
  "refiner E query additional_description current_arg criticism extra =
     traceable E chain ''refiner''
       [(''query'', Str query), (''additional_description'', Str additional_description),
        (''current_arg'', Str current_arg), (''criticism'', Str criticism)]
       extra Str
       (\<lambda>_. seq (now E) (\<lambda>t.
          call_openai E
            [[(''role'', ''system''),
              (''content'', ''You are a debater making an argument on a topic.''
                 @ additional_description
                 @ '' The current time is '' @ t)],
             [(''role'', ''user''),
              (''content'', ''The discussion topic is '' @ query)],
             [(''role'', ''assistant''),
              (''content'', current_arg)],
             [(''role'', ''user''),
              (''content'', criticism)],
             [(''role'', ''system''),
              (''content'', ''Please generate a new argument that incorporates the feedback from the user.'')]]
            None None None))"

definition argument_chain ::
  "('w, 't) externals \<Rightarrow> string \<Rightarrow> string \<Rightarrow> langsmith_extra option
     \<Rightarrow> (('w, 't) state, string) io" where
  "argument_chain E query additional_description extra =
     traceable E chain ''argument_chain''
       [(''query'', Str query), (''additional_description'', Str additional_description)]
       extra Str
       (\<lambda>_. seq (argument_generator E query additional_description None) (\<lambda>argument.
             seq (critic E argument None) (\<lambda>criticism.
             refiner E query additional_description argument criticism None)))"

definition argument_chain2 ::
  "('w, 't) externals \<Rightarrow> string \<Rightarrow> string \<Rightarrow> langsmith_extra option
     \<Rightarrow> (('w, 't) state, string \<times> UUID) io" where
  "argument_chain2 E query additional_description extra =
     traceable E chain ''argument_chain2''
       [(''query'', Str query), (''additional_description'', Str additional_description)]
       extra (\<lambda>(refined_argument, rid). Tuple [Str refined_argument, Uuid rid])
       (\<lambda>run_tree.
             seq (argument_generator E query additional_description None) (\<lambda>argument.
             seq (critic E argument None) (\<lambda>criticism.
             seq (refiner E query additional_description argument criticism None)
               (\<lambda>refined_argument.
             return (refined_argument, id' run_tree)))))"

definition argument_chain_3 ::
  "('w, 't) externals \<Rightarrow> string \<Rightarrow> string \<Rightarrow> langsmith_extra option
     \<Rightarrow> (('w, 't) state, string) io" where
  "argument_chain_3 E query additional_description extra =
     traceable E
       \<lparr>run_type = ''chain'', name = Some ''My Argument Chain'', tags = Some [''tutorial''],
        metadata = Some [(''githash'', Str ''e38f04c83'')]\<rparr>
       ''argument_chain_3''
       [(''query'', Str query), (''additional_description'', Str additional_description)]
       extra Str
       (\<lambda>_. seq (argument_generator E query additional_description None) (\<lambda>argument.
             seq (critic E argument None) (\<lambda>criticism.
             refiner E query additional_description argument criticism None)))"

subsection \<open>The cells that use a run identifier\<close>

text \<open>
  Cells 7, 9 and 10 of the notebook, in the order in which they are run:
  \<^verbatim>\<open>result, run_id = argument_chain2(...)\<close>, then
  \<^verbatim>\<open>client.create_feedback(run_id, "user_feedback", score=0.5, correction={...})\<close>, then
  \<^verbatim>\<open>shared_link = client.share_run(run_id)\<close>. The value is the notebook's globals
  \<^verbatim>\<open>result\<close>, \<^verbatim>\<open>run_id\<close> and \<^verbatim>\<open>shared_link\<close>.
\<close>

definition cells_7_9_10 ::
  "('w, 't) externals \<Rightarrow> (('w, 't) state, string \<times> UUID \<times> string) io" where
  "cells_7_9_10 E =
     seq (argument_chain2 E ''Whether sunshine is good for you.''
            ''Provide a concise, few sentence argument on why sunshine is good for you.'' None)
       (\<lambda>(result, rid).
     seq (create_feedback E rid ''user_feedback'' (Some 0.5)
            (Some [(''generation'', ''Sunshine is nice. Full stop.'')]) None)
       (\<lambda>_.
     seq (share_run E rid)
       (\<lambda>shared_link.
     return (result, rid, shared_link))))"

text \<open>
  Cells 12 and 13: \<^verbatim>\<open>requested_uuid = uuid4()\<close>, the call of \<^verbatim>\<open>argument_chain_3\<close> with
  \<^verbatim>\<open>langsmith_extra={"tags": ["another-tag"], "metadata": {"another-key": 1},
  "run_id": requested_uuid}\<close>, and
  \<^verbatim>\<open>client.create_feedback(requested_uuid, "user_feedback", score=1, source_info={...})\<close>.
  The value is the globals \<^verbatim>\<open>requested_uuid\<close> and \<^verbatim>\<open>result\<close>.
\<close>

definition cells_12_13 ::
  "('w, 't) externals \<Rightarrow> (('w, 't) state, UUID \<times> string) io" where
  "cells_12_13 E =
     seq (new_uuid4 E)
       (\<lambda>requested_uuid.
     seq (argument_chain_3 E ''Whether sunshine is good for you.''
            ''Provide a concise, few sentence argument on why sunshine is good for you.''
            (Some \<lparr>extra_tags = Some [''another-tag''],
                   extra_metadata = Some [(''another-key'', Integer 1)],
                   run_id = Some requested_uuid\<rparr>))
       (\<lambda>result.
     seq (create_feedback E requested_uuid ''user_feedback'' (Some 1) None
            (Some [(''origin'', ''example notebook'')]))
       (\<lambda>_.
     return (requested_uuid, result))))"

subsection \<open>Reading the event log\<close>

text \<open>The events that a computation started in \<open>s\<close> and ended in \<open>s'\<close> has added.\<close>

definition new_events :: "('w, 't) state \<Rightarrow> ('w, 't) state \<Rightarrow> event list" where
  "new_events s s' = drop (length (events s)) (events s')"

text \<open>The chat-completion requests among some events, each with its outcome.\<close>

fun chat_calls :: "event list \<Rightarrow> (request \<times> (exn + ChatCompletion)) list" where
  "chat_calls [] = []"
| "chat_calls (Chat req out # evs) = (req, out) # chat_calls evs"
| "chat_calls (_ # evs) = chat_calls evs"

definition chat_requests :: "event list \<Rightarrow> request list" where
  "chat_requests evs = map fst (chat_calls evs)"

text \<open>The exception an external call has raised, if it has.\<close>

fun raised_by :: "event \<Rightarrow> exn option" where
  "raised_by (Chat _ (Inl e)) = Some e"
| "raised_by (Post _ _ _ _ (Inl e)) = Some e"
| "raised_by (End _ _ (Inl e)) = Some e"
| "raised_by (Feedback _ _ _ _ _ (Inl e)) = Some e"
| "raised_by (Share _ (Inl e)) = Some e"
| "raised_by _ = None"

fun raised :: "event list \<Rightarrow> exn list" where
  "raised [] = []"
| "raised (ev # evs) = (case raised_by ev of None \<Rightarrow> raised evs | Some e \<Rightarrow> e # raised evs)"

text \<open>The text of a response: the content of the message of its first choice.\<close>

definition first_content :: "ChatCompletion \<Rightarrow> string option" where
  "first_content response =
     (case choices response of [] \<Rightarrow> None | c # _ \<Rightarrow> Some (content (message c)))"

text \<open>The events of a decorated call that returns: the run is posted, the body's
  events follow, and the run is ended with the output.\<close>

definition call_events ::
  "traceable_args \<Rightarrow> string \<Rightarrow> (string \<times> pyval) list \<Rightarrow> langsmith_extra option
     \<Rightarrow> RunTree \<Rightarrow> event list \<Rightarrow> pyval \<Rightarrow> event list" where
  "call_events args fname inputs extra rt body output =
     Post args fname inputs extra (Inr rt) # body @ [End rt (Inr output) (Inr ())]"

text \<open>The events of a call \<^verbatim>\<open>call_openai(data)\<close> that returns \<open>v\<close>.\<close>

definition call_openai_events :: "RunTree \<Rightarrow> dict list \<Rightarrow> ChatCompletion \<Rightarrow> string \<Rightarrow> event list" where
  "call_openai_events rt data response v =
     call_events llm ''call_openai'' [(''data'', Messages data)] None rt
       [Chat \<lparr>model = ''gpt-3.5-turbo'', messages = data, temperature = 0\<rparr> (Inr response)]
       (Str v)"

text \<open>The events of a call of one of the three prompt functions that returns \<open>v\<close>: its
  run encloses the reading of the clock, if there is one, and one call of
  \<^verbatim>\<open>call_openai\<close>, whose value is the output of the run.\<close>

definition step_events ::
  "string \<Rightarrow> (string \<times> pyval) list \<Rightarrow> langsmith_extra option \<Rightarrow> RunTree \<Rightarrow> event list
     \<Rightarrow> RunTree \<Rightarrow> dict list \<Rightarrow> ChatCompletion \<Rightarrow> string \<Rightarrow> event list" where
  "step_events fname inputs extra rt clock rt' data response v =
     call_events chain fname inputs extra rt
       (clock @ call_openai_events rt' data response v) (Str v)"

text \<open>The events of the three steps of a chain on \<open>query\<close> and \<open>additional_description\<close>
  that ends with the value \<open>v\<close>: \<^verbatim>\<open>argument_generator\<close> is called on the two inputs and
  returns the text \<open>a\<close> of its response, \<^verbatim>\<open>critic\<close> is called on \<open>a\<close> and returns the text
  \<open>c\<close> of its response, \<^verbatim>\<open>refiner\<close> is called on the two inputs, \<open>a\<close> and \<open>c\<close> and
  returns the text \<open>v\<close> of its response; and there is no other event.\<close>

definition chain_steps :: "string \<Rightarrow> string \<Rightarrow> string \<Rightarrow> event list \<Rightarrow> bool" where
  "chain_steps query additional_description v evs \<longleftrightarrow>
     (\<exists>rt1 t1 rt1' data1 response1 a rt2 rt2' data2 response2 c rt3 t3 rt3' data3 response3.
        evs =
          step_events ''argument_generator''
            [(''query'', Str query), (''additional_description'', Str additional_description)]
            None rt1 [Now t1] rt1' data1 response1 a
          @ step_events ''critic'' [(''argument'', Str a)] None rt2 [] rt2' data2 response2 c
          @ step_events ''refiner''
            [(''query'', Str query), (''additional_description'', Str additional_description),
             (''current_arg'', Str a), (''criticism'', Str c)]
            None rt3 [Now t3] rt3' data3 response3 v
        \<and> first_content response1 = Some a
        \<and> first_content response2 = Some c
        \<and> first_content response3 = Some v)"

text \<open>A tracing client that never raises.\<close>

definition tracing_succeeds :: "('w, 't) externals \<Rightarrow> bool" where
  "tracing_succeeds E \<longleftrightarrow>
     (\<forall>args fname inputs extra t. \<exists>rt t'. post_run E args fname inputs extra t = (Inr rt, t'))
     \<and> (\<forall>rt result t. \<exists>t'. end_run E rt result t = (Inr (), t'))"

text \<open>After the first exception raised by an external call, the only further events
  are the reports of the enclosing runs to the tracing client.\<close>

fun is_End :: "event \<Rightarrow> bool" where
  "is_End (End _ _ _) = True"
| "is_End _ = False"

fun quiet_after_raise :: "event list \<Rightarrow> bool" where
  "quiet_after_raise [] = True"
| "quiet_after_raise (ev # evs) =
     (case raised_by ev of None \<Rightarrow> quiet_after_raise evs | Some _ \<Rightarrow> list_all is_End evs)"

text \<open>Auxiliary: when an external call has raised, the outcome is an exception, namely
  the one that was raised last; and nothing is tried again after the first one.\<close>

definition lets_through :: "exn + 'a \<Rightarrow> event list \<Rightarrow> bool" where
  "lets_through r evs \<longleftrightarrow>
     (raised evs \<noteq> [] \<longrightarrow> r = Inl (last (raised evs))) \<and> quiet_after_raise evs"





text \<open>Every chat-completion request that a computation makes satisfies \<open>P\<close>.\<close>

definition requests_all :: "(request \<Rightarrow> bool) \<Rightarrow> (('w, 't) state, 'a) io \<Rightarrow> bool" where
  "requests_all P m \<longleftrightarrow>
     (\<forall>s. \<forall>req \<in> set (chat_requests (new_events s (snd (m s)))). P req)"

text \<open>A chat message as the API takes it: a dict with the keys \<^verbatim>\<open>role\<close> and
  \<^verbatim>\<open>content\<close>, the role being one of three labels.\<close>

definition valid_message :: "dict \<Rightarrow> bool" where
  "valid_message m \<longleftrightarrow>
     map fst m = [''role'', ''content'']
     \<and> map_of m ''role'' \<in> {Some ''system'', Some ''user'', Some ''assistant''}"

text \<open>Auxiliary: a computation only appends to the log, and what it appends satisfies
  \<open>Q\<close> together with its outcome.\<close>

definition appends :: "((exn + 'a) \<Rightarrow> event list \<Rightarrow> bool) \<Rightarrow> (('w, 't) state, 'a) io \<Rightarrow> bool" where
  "appends Q m \<longleftrightarrow> (\<forall>s. \<exists>evs. events (snd (m s)) = events s @ evs \<and> Q (fst (m s)) evs)"

text \<open>Auxiliary: two computations that return from states with the same application
  world return related values and leave the same application world.\<close>

definition world_det ::
  "('a \<Rightarrow> 'b \<Rightarrow> bool) \<Rightarrow> (('w, 't) state, 'a) io \<Rightarrow> (('w, 't) state, 'b) io \<Rightarrow> bool" where
  "world_det R m1 m2 \<longleftrightarrow>
     (\<forall>s1 s2 v1 v2 s1' s2'.
        world s1 = world s2 \<longrightarrow> m1 s1 = (Inr v1, s1') \<longrightarrow> m2 s2 = (Inr v2, s2') \<longrightarrow>
        R v1 v2 \<and> world s1' = world s2')"

text \<open>Auxiliary: from states with the same application world, two computations have
  the same outcome, an exception or related values, and leave the same application
  world.\<close>

definition world_sim ::
  "('a \<Rightarrow> 'b \<Rightarrow> bool) \<Rightarrow> (('w, 't) state, 'a) io \<Rightarrow> (('w, 't) state, 'b) io \<Rightarrow> bool" where
  "world_sim R m1 m2 \<longleftrightarrow>
     (\<forall>s1 s2. world s1 = world s2 \<longrightarrow>
        rel_sum (=) R (fst (m1 s1)) (fst (m2 s2))
        \<and> world (snd (m1 s1)) = world (snd (m2 s2)))"

text \<open>Auxiliary: from every state the computation returns, and its value satisfies
  \<open>Q\<close>.\<close>

definition total :: "('a \<Rightarrow> bool) \<Rightarrow> (('w, 't) state, 'a) io \<Rightarrow> bool" where
  "total Q m \<longleftrightarrow> (\<forall>s. \<exists>v. fst (m s) = Inr v \<and> Q v)"

subsection \<open>Mock services\<close>

text \<open>
  A chat API that answers \<open>A\<close>, \<open>B\<close>, \<open>C\<close> in turn, a clock that stands still, and a
  tracing client that numbers the runs (or takes the requested run id).
\<close>

definition mock :: "(nat, UUID) externals" where
  "mock =
     \<lparr>openai_ChatCompletion_create =
        (\<lambda>req n. (Inr \<lparr>choices = [\<lparr>message = \<lparr>role = ''assistant'',
                     content = (if n = 0 then ''A'' else if n = 1 then ''B'' else ''C'')\<rparr>\<rparr>]\<rparr>,
                   Suc n)),
      datetime_now = (\<lambda>n. (''T'', n)),
      uuid4 = (\<lambda>n. (99, n)),
      post_run =
        (\<lambda>args fname inputs extra k.
           (Inr \<lparr>id' = (case extra of None \<Rightarrow> k
                         | Some x \<Rightarrow> (case run_id x of None \<Rightarrow> k | Some u \<Rightarrow> u))\<rparr>,
            k + 1)),
      end_run = (\<lambda>rt result k. (Inr (), k)),
      client_create_feedback = (\<lambda>rid key score correction source_info k. (Inr (), k)),
      client_share_run = (\<lambda>rid k. (Inr ''link'', k))\<rparr>"



text \<open>The same services with a chat API that always gives the same response.\<close>

definition mock_fixed :: "(nat, UUID) externals" where
  "mock_fixed =
     mock\<lparr>openai_ChatCompletion_create :=
        (\<lambda>req n. (Inr \<lparr>choices = [\<lparr>message = \<lparr>role = ''assistant'', content = ''fixed''\<rparr>\<rparr>]\<rparr>,
                   n))\<rparr>"

definition s0 :: "(nat, UUID) state" where
  "s0 = \<lparr>events = [], world = 0, tracer = 0\<rparr>"

section \<open>Lemmas\<close>

subsection \<open>Sequencing, the service calls and the decorator\<close>

lemma seq_Inr:
  "seq m f s = (Inr v, s') \<longleftrightarrow> (\<exists>x s1. m s = (Inr x, s1) \<and> f x s1 = (Inr v, s'))"
  by (auto simp: seq_def split: prod.splits sum.splits)

lemma seq_return: "seq (return ()) (\<lambda>_. m) = m"
  by (rule ext) (simp add: seq_def return_def)

lemma seq_return_right: "seq m (\<lambda>v. return v) = m"
  by (rule ext) (simp add: seq_def return_def split: prod.splits sum.splits)

lemma seq_assoc: "seq (seq m f) g = seq m (\<lambda>x. seq (f x) g)"
  by (rule ext) (simp add: seq_def split: prod.splits sum.splits)

lemma seq_return_Inr:
  "seq m (\<lambda>r. return (g r)) s = (Inr w, s') \<longleftrightarrow> (\<exists>v. m s = (Inr v, s') \<and> w = g v)"
  by (auto simp: seq_Inr return_def)

lemma run_eq: "fst (m s) = r \<Longrightarrow> m s = (r, snd (m s))"
  by (cases "m s") simp

lemma traceable_Inr:
  "traceable E args fname inputs extra out body s = (Inr v, s') \<longleftrightarrow>
     (\<exists>rt t1 s2 t3.
        post_run E args fname inputs extra (tracer s) = (Inr rt, t1)
        \<and> body rt (s\<lparr>events := events s @ [Post args fname inputs extra (Inr rt)], tracer := t1\<rparr>)
            = (Inr v, s2)
        \<and> end_run E rt (Inr (out v)) (tracer s2) = (Inr (), t3)
        \<and> s' = s2\<lparr>events := events s2 @ [End rt (Inr (out v)) (Inr ())], tracer := t3\<rparr>)"
  by (auto simp: traceable_def run_post_def run_end_def split: prod.splits sum.splits)

lemma ChatCompletion_create_Inr:
  "ChatCompletion_create E req s = (Inr resp, s') \<longleftrightarrow>
     (\<exists>w. openai_ChatCompletion_create E req (world s) = (Inr resp, w)
        \<and> s' = s\<lparr>events := events s @ [Chat req (Inr resp)], world := w\<rparr>)"
  by (auto simp: ChatCompletion_create_def split: prod.splits)

lemma now_Inr:
  "now E s = (Inr t, s') \<longleftrightarrow>
     (\<exists>w. datetime_now E (world s) = (t, w)
        \<and> s' = s\<lparr>events := events s @ [Now t], world := w\<rparr>)"
  by (auto simp: now_def split: prod.splits)

lemma now_events: "now E sa = (Inr t, sb) \<Longrightarrow> events sb = events sa @ [Now t]"
  by (auto simp: now_Inr)

lemma create_feedback_Inr:
  "create_feedback E rid key score correction source_info s = (Inr u, s') \<longleftrightarrow>
     (\<exists>t. client_create_feedback E rid key score correction source_info (tracer s) = (Inr u, t)
        \<and> s' = s\<lparr>events := events s @ [Feedback rid key score correction source_info (Inr u)],
                  tracer := t\<rparr>)"
  by (auto simp: create_feedback_def split: prod.splits)

lemma share_run_Inr:
  "share_run E rid s = (Inr link, s') \<longleftrightarrow>
     (\<exists>t. client_share_run E rid (tracer s) = (Inr link, t)
        \<and> s' = s\<lparr>events := events s @ [Share rid (Inr link)], tracer := t\<rparr>)"
  by (auto simp: share_run_def split: prod.splits)

lemma new_uuid4_Inr:
  "new_uuid4 E s = (Inr u, s') \<longleftrightarrow>
     (\<exists>w. uuid4 E (world s) = (u, w)
        \<and> s' = s\<lparr>events := events s @ [Uuid4 u], world := w\<rparr>)"
  by (auto simp: new_uuid4_def split: prod.splits)

subsection \<open>What a computation appends to the log\<close>

lemma new_events_append: "events s' = events s @ evs \<Longrightarrow> new_events s s' = evs"
  by (simp add: new_events_def)

lemma appendsI:
  assumes "\<And>s r s'. m s = (r, s') \<Longrightarrow> \<exists>evs. events s' = events s @ evs \<and> Q r evs"
  shows "appends Q m"
  unfolding appends_def
proof
  fix s
  obtain r s' where run: "m s = (r, s')" by (cases "m s")
  from assms[OF run] show "\<exists>evs. events (snd (m s)) = events s @ evs \<and> Q (fst (m s)) evs"
    by (simp add: run)
qed

lemma appendsD:
  assumes "appends Q m" and "m s = (r, s')"
  obtains evs where "events s' = events s @ evs" and "Q r evs"
  using assms unfolding appends_def by (metis fst_conv snd_conv)

lemma appends_mono:
  assumes "appends Q m" and "\<And>r evs. Q r evs \<Longrightarrow> Q' r evs"
  shows "appends Q' m"
  using assms unfolding appends_def by blast


lemma events_grow:
  assumes "appends Q m" and "m s = (r, s')"
  shows "events s' = events s @ new_events s s'"
proof -
  from assms obtain evs where "events s' = events s @ evs" by (rule appendsD)
  then show ?thesis by (simp add: new_events_def)
qed

lemma appends_return: "appends (\<lambda>r evs. r = Inr v \<and> evs = []) (return v)"
  by (simp add: appends_def return_def)

lemma appends_raise: "appends (\<lambda>r evs. r = Inl e \<and> evs = []) (raise e)"
  by (simp add: appends_def raise_def)

lemma appends_ChatCompletion_create:
  "appends (\<lambda>r evs. evs = [Chat req r]) (ChatCompletion_create E req)"
  by (simp add: appends_def ChatCompletion_create_def split: prod.splits)

lemma appends_now: "appends (\<lambda>r evs. \<exists>t. r = Inr t \<and> evs = [Now t]) (now E)"
  by (simp add: appends_def now_def split: prod.splits)

lemma appends_new_uuid4: "appends (\<lambda>r evs. \<exists>u. r = Inr u \<and> evs = [Uuid4 u]) (new_uuid4 E)"
  by (simp add: appends_def new_uuid4_def split: prod.splits)

lemma appends_create_feedback:
  "appends (\<lambda>r evs. evs = [Feedback rid key score correction source_info r])
     (create_feedback E rid key score correction source_info)"
  by (simp add: appends_def create_feedback_def split: prod.splits)

lemma appends_share_run: "appends (\<lambda>r evs. evs = [Share rid r]) (share_run E rid)"
  by (simp add: appends_def share_run_def split: prod.splits)

lemma appends_seq:
  assumes m: "appends Q1 m" and f: "\<And>x. appends (Q2 x) (f x)"
  shows "appends (\<lambda>r evs. (\<exists>e. r = Inl e \<and> Q1 (Inl e) evs)
                     \<or> (\<exists>x e1 e2. evs = e1 @ e2 \<and> Q1 (Inr x) e1 \<and> Q2 x r e2))
           (seq m f)"
proof (rule appendsI)
  fix s r s'
  assume run: "seq m f s = (r, s')"
  obtain r1 s1 where m1: "m s = (r1, s1)" by (cases "m s")
  from m m1 obtain e1 where e1: "events s1 = events s @ e1" "Q1 r1 e1" by (rule appendsD)
  show "\<exists>evs. events s' = events s @ evs
          \<and> ((\<exists>e. r = Inl e \<and> Q1 (Inl e) evs)
             \<or> (\<exists>x e1 e2. evs = e1 @ e2 \<and> Q1 (Inr x) e1 \<and> Q2 x r e2))"
  proof (cases r1)
    case (Inl e)
    with run m1 have "r = Inl e" "s' = s1" by (simp_all add: seq_def)
    with e1 Inl show ?thesis by auto
  next
    case (Inr x)
    with run m1 have "f x s1 = (r, s')" by (simp add: seq_def)
    with f obtain e2 where "events s' = events s1 @ e2" "Q2 x r e2" by (rule appendsD)
    with e1 Inr show ?thesis by auto
  qed
qed

lemma appends_traceable:
  assumes body: "\<And>rt. appends (Qb rt) (body rt)"
  shows "appends
           (\<lambda>r evs. (\<exists>e. r = Inl e \<and> evs = [Post args fname inputs extra (Inl e)])
              \<or> (\<exists>rt rb eb ended.
                    evs = Post args fname inputs extra (Inr rt) # eb
                            @ [End rt (map_sum (\<lambda>e. e) out rb) ended]
                    \<and> Qb rt rb eb
                    \<and> r = (case ended of Inl e \<Rightarrow> Inl e | Inr _ \<Rightarrow> rb)))
           (traceable E args fname inputs extra out body)"
proof (rule appendsI)
  fix s r s'
  assume run: "traceable E args fname inputs extra out body s = (r, s')"
  let ?Q = "\<lambda>r evs. (\<exists>e. r = Inl e \<and> evs = [Post args fname inputs extra (Inl e)])
              \<or> (\<exists>rt rb eb ended.
                    evs = Post args fname inputs extra (Inr rt) # eb
                            @ [End rt (map_sum (\<lambda>e. e) out rb) ended]
                    \<and> Qb rt rb eb
                    \<and> r = (case ended of Inl e \<Rightarrow> Inl e | Inr _ \<Rightarrow> rb))"
  obtain p t1 where post: "post_run E args fname inputs extra (tracer s) = (p, t1)"
    by (cases "post_run E args fname inputs extra (tracer s)")
  show "\<exists>evs. events s' = events s @ evs \<and> ?Q r evs"
  proof (cases p)
    case (Inl e)
    with run post have "r = Inl e" "events s' = events s @ [Post args fname inputs extra (Inl e)]"
      by (auto simp: traceable_def run_post_def)
    then show ?thesis by auto
  next
    case (Inr rt)
    let ?s1 = "s\<lparr>events := events s @ [Post args fname inputs extra (Inr rt)], tracer := t1\<rparr>"
    obtain rb s2 where b: "body rt ?s1 = (rb, s2)" by (cases "body rt ?s1")
    from body b obtain eb where eb: "events s2 = events ?s1 @ eb" "Qb rt rb eb"
      by (rule appendsD)
    obtain ended t3 where fin: "end_run E rt (map_sum (\<lambda>e. e) out rb) (tracer s2) = (ended, t3)"
      by (cases "end_run E rt (map_sum (\<lambda>e. e) out rb) (tracer s2)")
    from run post Inr b fin
    have "r = (case ended of Inl e \<Rightarrow> Inl e | Inr _ \<Rightarrow> rb)"
      and "events s' = events s2 @ [End rt (map_sum (\<lambda>e. e) out rb) ended]"
      by (auto simp: traceable_def run_post_def run_end_def split: sum.splits)
    with eb show ?thesis by auto
  qed
qed

lemma appends_pick:
  "appends
     (\<lambda>r evs. evs = [] \<and>
        r = (case choices response of [] \<Rightarrow> Inl IndexError
             | c # _ \<Rightarrow> Inr (content (message c))))
     (case choices response of [] \<Rightarrow> raise IndexError
      | c # _ \<Rightarrow> return (content (message c)))"
  by (cases "choices response") (simp_all add: appends_def return_def raise_def)

subsection \<open>The chat-completion requests of a computation\<close>

lemma chat_calls_append: "chat_calls (xs @ ys) = chat_calls xs @ chat_calls ys"
  by (induction xs rule: chat_calls.induct) simp_all

lemma chat_requests_append: "chat_requests (xs @ ys) = chat_requests xs @ chat_requests ys"
  by (simp add: chat_requests_def chat_calls_append)

lemma chat_requests_simps:
  "chat_requests [] = []"
  "chat_requests (Chat req out # evs) = req # chat_requests evs"
  "chat_requests (Now t # evs) = chat_requests evs"
  "chat_requests (Uuid4 u # evs) = chat_requests evs"
  "chat_requests (Post a f i x p # evs) = chat_requests evs"
  "chat_requests (End rt r e # evs) = chat_requests evs"
  "chat_requests (Feedback rid k sc c si fo # evs) = chat_requests evs"
  "chat_requests (Share rid so # evs) = chat_requests evs"
  by (simp_all add: chat_requests_def)

lemma chat_calls_call_events:
  "chat_calls (call_events args fname inputs extra rt body output) = chat_calls body"
  by (simp add: call_events_def chat_calls_append)

lemma chat_calls_step_events:
  "chat_calls (step_events fname inputs extra rt clock rt' data response v) =
     chat_calls clock
     @ [(\<lparr>model = ''gpt-3.5-turbo'', messages = data, temperature = 0\<rparr>, Inr response)]"
  by (simp add: step_events_def call_events_def call_openai_events_def chat_calls_append)

lemma requests_allI:
  assumes "appends (\<lambda>r evs. \<forall>req \<in> set (chat_requests evs). P req) m"
  shows "requests_all P m"
  unfolding requests_all_def
proof
  fix s
  obtain r s' where run: "m s = (r, s')" by (cases "m s")
  from assms run obtain evs where "events s' = events s @ evs"
    and "\<forall>req \<in> set (chat_requests evs). P req" by (rule appendsD)
  then show "\<forall>req \<in> set (chat_requests (new_events s (snd (m s)))). P req"
    by (simp add: run new_events_append)
qed

lemma requests_seq:
  assumes "appends (\<lambda>r evs. \<forall>req \<in> set (chat_requests evs). P req) m"
    and "\<And>x. appends (\<lambda>r evs. \<forall>req \<in> set (chat_requests evs). P req) (f x)"
  shows "appends (\<lambda>r evs. \<forall>req \<in> set (chat_requests evs). P req) (seq m f)"
  by (rule appends_mono[OF appends_seq[OF assms]]) (auto simp: chat_requests_append chat_requests_simps)

lemma requests_traceable:
  assumes "\<And>rt. appends (\<lambda>r evs. \<forall>req \<in> set (chat_requests evs). P req) (body rt)"
  shows "appends (\<lambda>r evs. \<forall>req \<in> set (chat_requests evs). P req)
           (traceable E args fname inputs extra out body)"
  by (rule appends_mono[OF appends_traceable[OF assms]]) (auto simp: chat_requests_append chat_requests_simps)

lemma requests_now: "appends (\<lambda>r evs. \<forall>req \<in> set (chat_requests evs). P req) (now E)"
  by (rule appends_mono[OF appends_now]) (auto simp: chat_requests_simps)

lemma requests_pick:
  "appends (\<lambda>r evs. \<forall>req \<in> set (chat_requests evs). P req)
     (case cs of [] \<Rightarrow> raise IndexError | c # x \<Rightarrow> return (content (message c)))"
  by (cases cs) (auto intro: appends_mono[OF appends_raise] appends_mono[OF appends_return] simp: chat_requests_simps)

lemma requests_return:
  "appends (\<lambda>r evs. \<forall>req \<in> set (chat_requests evs). P req) (return v)"
  by (rule appends_mono[OF appends_return]) (simp add: chat_requests_simps)

lemma requests_call_openai:
  assumes "P \<lparr>model = (case model_arg of None \<Rightarrow> ''gpt-3.5-turbo'' | Some m \<Rightarrow> m),
              messages = data,
              temperature = (case temperature_arg of None \<Rightarrow> 0 | Some t \<Rightarrow> t)\<rparr>"
  shows "appends (\<lambda>r evs. \<forall>req \<in> set (chat_requests evs). P req)
           (call_openai E data model_arg temperature_arg extra)"
  unfolding call_openai_def
  apply (rule requests_traceable)
  apply (rule requests_seq)
   apply (rule appends_mono[OF appends_ChatCompletion_create])
   apply (simp add: assms chat_requests_simps)
  apply (rule requests_pick)
  done

lemma requests_call_openai_default:
  assumes "P \<lparr>model = ''gpt-3.5-turbo'', messages = data, temperature = 0\<rparr>"
  shows "appends (\<lambda>r evs. \<forall>req \<in> set (chat_requests evs). P req)
           (call_openai E data None None extra)"
  by (rule requests_call_openai) (simp add: assms)

lemma requests_of_call_openai:
  "appends
     (\<lambda>r evs. chat_requests evs \<in>
        {[], [\<lparr>model = (case model_arg of None \<Rightarrow> ''gpt-3.5-turbo'' | Some m \<Rightarrow> m),
               messages = data,
               temperature = (case temperature_arg of None \<Rightarrow> 0 | Some t \<Rightarrow> t)\<rparr>]})
     (call_openai E data model_arg temperature_arg extra)"
  unfolding call_openai_def
  by (rule appends_mono[OF appends_traceable[OF appends_seq[OF appends_ChatCompletion_create
        appends_pick]]])
     (auto simp: chat_requests_simps chat_requests_append)

lemma requests_argument_generator:
  assumes "\<And>t. P \<lparr>model = ''gpt-3.5-turbo'',
                   messages =
                     [[(''role'', ''system''),
                       (''content'', ''You are a debater making an argument on a topic.''
                          @ additional_description
                          @ '' The current time is '' @ t)],
                      [(''role'', ''user''),
                       (''content'', ''The discussion topic is '' @ query)]],
                   temperature = 0\<rparr>"
  shows "appends (\<lambda>r evs. \<forall>req \<in> set (chat_requests evs). P req)
           (argument_generator E query additional_description extra)"
  unfolding argument_generator_def
  by (intro requests_traceable requests_seq requests_now requests_call_openai_default) (rule assms)

lemma requests_critic:
  assumes "P \<lparr>model = ''gpt-3.5-turbo'',
              messages =
                [[(''role'', ''system''),
                  (''content'', ''You are a critic.''
                     @ [CHR 0x0A]
                     @ ''What unresolved questions or criticism do you have after reading the following argument?''
                     @ ''Provide a concise summary of your feedback.'')],
                 [(''role'', ''system''),
                  (''content'', argument)]],
              temperature = 0\<rparr>"
  shows "appends (\<lambda>r evs. \<forall>req \<in> set (chat_requests evs). P req) (critic E argument extra)"
  unfolding critic_def
  by (intro requests_traceable requests_call_openai_default) (rule assms)

lemma requests_refiner:
  assumes "\<And>t. P \<lparr>model = ''gpt-3.5-turbo'',
                   messages =
                     [[(''role'', ''system''),
                       (''content'', ''You are a debater making an argument on a topic.''
                          @ additional_description
                          @ '' The current time is '' @ t)],
                      [(''role'', ''user''),
                       (''content'', ''The discussion topic is '' @ query)],
                      [(''role'', ''assistant''),
                       (''content'', current_arg)],
                      [(''role'', ''user''),
                       (''content'', criticism)],
                      [(''role'', ''system''),
                       (''content'', ''Please generate a new argument that incorporates the feedback from the user.'')]],
                   temperature = 0\<rparr>"
  shows "appends (\<lambda>r evs. \<forall>req \<in> set (chat_requests evs). P req)
           (refiner E query additional_description current_arg criticism extra)"
  unfolding refiner_def
  by (intro requests_traceable requests_seq requests_now requests_call_openai_default) (rule assms)

text \<open>A property of requests holds of every request of a chain as soon as it holds of
  every request of the three prompt functions.\<close>

lemma requests_chains:
  assumes g: "\<And>q d x. appends (\<lambda>r evs. \<forall>req \<in> set (chat_requests evs). P req)
                          (argument_generator E q d x)"
    and c: "\<And>a x. appends (\<lambda>r evs. \<forall>req \<in> set (chat_requests evs). P req) (critic E a x)"
    and f: "\<And>q d a k x. appends (\<lambda>r evs. \<forall>req \<in> set (chat_requests evs). P req)
                            (refiner E q d a k x)"
  shows "appends (\<lambda>r evs. \<forall>req \<in> set (chat_requests evs). P req)
           (argument_chain E query additional_description extra)"
    and "appends (\<lambda>r evs. \<forall>req \<in> set (chat_requests evs). P req)
           (argument_chain2 E query additional_description extra)"
    and "appends (\<lambda>r evs. \<forall>req \<in> set (chat_requests evs). P req)
           (argument_chain_3 E query additional_description extra)"
  unfolding argument_chain_def argument_chain2_def argument_chain_3_def
  by (intro requests_traceable requests_seq requests_return g c f)+

subsection \<open>Exceptions pass through\<close>

lemma raised_append: "raised (xs @ ys) = raised xs @ raised ys"
  by (induction xs) (simp_all split: option.splits)

lemma all_End_quiet: "list_all is_End evs \<Longrightarrow> quiet_after_raise evs"
  by (induction evs) (auto split: option.splits)

lemma quiet_append_silent:
  "raised xs = [] \<Longrightarrow> quiet_after_raise (xs @ ys) = quiet_after_raise ys"
  by (induction xs) (auto split: option.splits)

lemma quiet_append_End:
  "quiet_after_raise xs \<Longrightarrow> list_all is_End ys \<Longrightarrow> quiet_after_raise (xs @ ys)"
  by (induction xs) (auto simp: all_End_quiet split: option.splits)

lemma lets_through_Inr: "lets_through (Inr v) evs \<Longrightarrow> raised evs = []"
  by (auto simp: lets_through_def)

lemma through_seq:
  fixes m :: "(('w, 't) state, 'a) io" and f :: "'a \<Rightarrow> (('w, 't) state, 'b) io"
  assumes "appends lets_through m" and "\<And>x. appends lets_through (f x)"
  shows "appends lets_through (seq m f)"
proof (rule appends_mono[OF appends_seq[OF assms]])
  fix r :: "exn + 'b" and evs
  assume "(\<exists>e. r = Inl e \<and> lets_through (Inl e :: exn + 'a) evs)
           \<or> (\<exists>x e1 e2. evs = e1 @ e2 \<and> lets_through (Inr x :: exn + 'a) e1 \<and> lets_through r e2)"
  then show "lets_through r evs"
  proof (elim disjE exE conjE)
    fix e assume "r = Inl e" "lets_through (Inl e :: exn + 'a) evs"
    then show ?thesis by (simp add: lets_through_def)
  next
    fix x e1 e2
    assume evs: "evs = e1 @ e2" and 1: "lets_through (Inr x :: exn + 'a) e1"
      and 2: "lets_through r e2"
    from 1 have "raised e1 = []" by (rule lets_through_Inr)
    with evs 2 show ?thesis
      by (simp add: lets_through_def raised_append quiet_append_silent)
  qed
qed

lemma through_traceable:
  fixes body :: "RunTree \<Rightarrow> (('w, 't) state, 'a) io"
  assumes "\<And>rt. appends lets_through (body rt)"
  shows "appends lets_through (traceable E args fname inputs extra out body)"
proof (rule appends_mono[OF appends_traceable[OF assms]])
  fix r :: "exn + 'a" and evs
  assume "(\<exists>e. r = Inl e \<and> evs = [Post args fname inputs extra (Inl e)])
           \<or> (\<exists>rt rb eb ended.
                 evs = Post args fname inputs extra (Inr rt) # eb
                         @ [End rt (map_sum (\<lambda>e. e) out rb) ended]
                 \<and> lets_through rb eb
                 \<and> r = (case ended of Inl e \<Rightarrow> Inl e | Inr _ \<Rightarrow> rb))"
  then show "lets_through r evs"
  proof (elim disjE exE conjE)
    fix e assume "r = Inl e" "evs = [Post args fname inputs extra (Inl e)]"
    then show ?thesis by (simp add: lets_through_def raised_append)
  next
    fix rt rb eb ended
    assume evs: "evs = Post args fname inputs extra (Inr rt) # eb
                         @ [End rt (map_sum (\<lambda>e. e) out rb) ended]"
      and b: "lets_through rb eb"
      and r: "r = (case ended of Inl e \<Rightarrow> Inl e | Inr _ \<Rightarrow> rb)"
    from b have quiet: "quiet_after_raise (eb @ [End rt (map_sum (\<lambda>e. e) out rb) ended])"
      by (simp add: lets_through_def quiet_append_End)
    show ?thesis
    proof (cases ended)
      case (Inl e)
      with evs r quiet show ?thesis
        by (simp add: lets_through_def raised_append)
    next
      case (Inr u)
      with evs r quiet b show ?thesis
        by (simp add: lets_through_def raised_append)
    qed
  qed
qed

lemma through_ChatCompletion_create: "appends lets_through (ChatCompletion_create E req)"
proof (rule appends_mono[OF appends_ChatCompletion_create])
  fix r :: "exn + ChatCompletion" and evs
  assume "evs = [Chat req r]"
  then show "lets_through r evs"
    by (cases r) (simp_all add: lets_through_def raised_append)
qed

lemma through_now: "appends lets_through (now E)"
  by (rule appends_mono[OF appends_now]) (auto simp: lets_through_def raised_append)

lemma through_return: "appends lets_through (return v)"
  by (rule appends_mono[OF appends_return]) (simp add: lets_through_def)

lemma through_raise: "appends lets_through (raise e)"
  by (rule appends_mono[OF appends_raise]) (simp add: lets_through_def)

lemma through_call_openai:
  "appends lets_through (call_openai E data model_arg temperature_arg extra)"
  unfolding call_openai_def
  by (intro through_traceable through_seq through_ChatCompletion_create)
     (simp add: through_raise through_return split: list.splits)

lemma through_argument_generator:
  "appends lets_through (argument_generator E query additional_description extra)"
  unfolding argument_generator_def
  by (intro through_traceable through_seq through_now through_call_openai)

lemma through_critic: "appends lets_through (critic E argument extra)"
  unfolding critic_def by (intro through_traceable through_call_openai)

lemma through_refiner:
  "appends lets_through (refiner E query additional_description current_arg criticism extra)"
  unfolding refiner_def
  by (intro through_traceable through_seq through_now through_call_openai)















subsection \<open>The events of a call that returns\<close>

lemma call_openai_returns:
  assumes "call_openai E data model_arg temperature_arg extra s = (Inr v, s')"
  shows "\<exists>rt response.
           events s' = events s @
             call_events llm ''call_openai''
               ([(''data'', Messages data)]
                  @ (case model_arg of None \<Rightarrow> [] | Some m \<Rightarrow> [(''model'', Str m)])
                  @ (case temperature_arg of None \<Rightarrow> [] | Some t \<Rightarrow> [(''temperature'', Float t)]))
               extra rt
               [Chat \<lparr>model = (case model_arg of None \<Rightarrow> ''gpt-3.5-turbo'' | Some m \<Rightarrow> m),
                      messages = data,
                      temperature = (case temperature_arg of None \<Rightarrow> 0 | Some t \<Rightarrow> t)\<rparr>
                  (Inr response)]
               (Str v)
           \<and> first_content response = Some v"
proof -
  let ?req = "\<lparr>model = (case model_arg of None \<Rightarrow> ''gpt-3.5-turbo'' | Some m \<Rightarrow> m),
               messages = data,
               temperature = (case temperature_arg of None \<Rightarrow> 0 | Some t \<Rightarrow> t)\<rparr>"
  from assms obtain rt t1 s2 t3 x s1 where
    body: "ChatCompletion_create E ?req
             (s\<lparr>events := events s @ [Post llm ''call_openai''
                ([(''data'', Messages data)]
                  @ (case model_arg of None \<Rightarrow> [] | Some m \<Rightarrow> [(''model'', Str m)])
                  @ (case temperature_arg of None \<Rightarrow> [] | Some t \<Rightarrow> [(''temperature'', Float t)]))
                extra (Inr rt)], tracer := t1\<rparr>) = (Inr x, s1)"
    and pick: "(case choices x of [] \<Rightarrow> raise IndexError | c # _ \<Rightarrow> return (content (message c))) s1
                 = (Inr v, s2)"
    and fin: "s' = s2\<lparr>events := events s2 @ [End rt (Inr (Str v)) (Inr ())], tracer := t3\<rparr>"
    unfolding call_openai_def traceable_Inr seq_Inr by blast
  from pick have "first_content x = Some v" and "s2 = s1"
    by (auto simp: first_content_def return_def raise_def split: list.splits)
  moreover from body have "events s1 = events s @ [Post llm ''call_openai''
                ([(''data'', Messages data)]
                  @ (case model_arg of None \<Rightarrow> [] | Some m \<Rightarrow> [(''model'', Str m)])
                  @ (case temperature_arg of None \<Rightarrow> [] | Some t \<Rightarrow> [(''temperature'', Float t)]))
                extra (Inr rt), Chat ?req (Inr x)]"
    by (auto simp: ChatCompletion_create_Inr)
  ultimately show ?thesis using fin
    by (intro exI[of _ rt] exI[of _ x]) (simp add: call_events_def)
qed

lemma call_openai_default_returns:
  assumes "call_openai E data None None None s = (Inr v, s')"
  obtains rt response where "events s' = events s @ call_openai_events rt data response v"
    and "first_content response = Some v"
  using call_openai_returns[OF assms] by (auto simp: call_openai_events_def)

lemma step_returns:
  assumes run: "traceable E chain fname inputs extra Str
                  (\<lambda>_. seq clock (\<lambda>t. call_openai E (data t) None None None)) s = (Inr v, s')"
    and clock: "\<And>sa t sb. clock sa = (Inr t, sb) \<Longrightarrow> events sb = events sa @ ticks t"
  obtains rt t rt' response where
    "events s' = events s @ step_events fname inputs extra rt (ticks t) rt' (data t) response v"
    and "first_content response = Some v"
proof -
  from run obtain rt t1 s2 t3 where
    body: "seq clock (\<lambda>t. call_openai E (data t) None None None)
             (s\<lparr>events := events s @ [Post chain fname inputs extra (Inr rt)], tracer := t1\<rparr>)
             = (Inr v, s2)"
    and fin: "s' = s2\<lparr>events := events s2 @ [End rt (Inr (Str v)) (Inr ())], tracer := t3\<rparr>"
    unfolding traceable_Inr by blast
  from body obtain t s1 where
    tick: "clock (s\<lparr>events := events s @ [Post chain fname inputs extra (Inr rt)], tracer := t1\<rparr>)
             = (Inr t, s1)"
    and call: "call_openai E (data t) None None None s1 = (Inr v, s2)"
    unfolding seq_Inr by blast
  from call obtain rt' response where
    c: "events s2 = events s1 @ call_openai_events rt' (data t) response v"
    and first: "first_content response = Some v"
    by (rule call_openai_default_returns)
  from clock[OF tick] c fin
  have "events s' = events s @ step_events fname inputs extra rt (ticks t) rt' (data t) response v"
    by (simp add: step_events_def call_events_def)
  then show thesis using first by (rule that)
qed

lemma clocked_step_returns:
  assumes "traceable E chain fname inputs extra Str
             (\<lambda>_. seq (now E) (\<lambda>t. call_openai E (data t) None None None)) s = (Inr v, s')"
  obtains rt t rt' response where
    "events s' = events s @ step_events fname inputs extra rt [Now t] rt' (data t) response v"
    and "first_content response = Some v"
  by (rule step_returns[where ticks = "\<lambda>t. [Now t]" and clock = "now E" and data = data,
        OF assms now_events])

lemma argument_generator_returns:
  assumes "argument_generator E query additional_description extra s = (Inr v, s')"
  obtains rt t rt' response where
    "events s' = events s @
       step_events ''argument_generator''
         [(''query'', Str query), (''additional_description'', Str additional_description)]
         extra rt [Now t] rt'
         [[(''role'', ''system''),
           (''content'', ''You are a debater making an argument on a topic.''
              @ additional_description
              @ '' The current time is '' @ t)],
          [(''role'', ''user''),
           (''content'', ''The discussion topic is '' @ query)]]
         response v"
    and "first_content response = Some v"
  using assms unfolding argument_generator_def by (rule clocked_step_returns)

lemma refiner_returns:
  assumes "refiner E query additional_description current_arg criticism extra s = (Inr v, s')"
  obtains rt t rt' response where
    "events s' = events s @
       step_events ''refiner''
         [(''query'', Str query), (''additional_description'', Str additional_description),
          (''current_arg'', Str current_arg), (''criticism'', Str criticism)]
         extra rt [Now t] rt'
         [[(''role'', ''system''),
           (''content'', ''You are a debater making an argument on a topic.''
              @ additional_description
              @ '' The current time is '' @ t)],
          [(''role'', ''user''),
           (''content'', ''The discussion topic is '' @ query)],
          [(''role'', ''assistant''),
           (''content'', current_arg)],
          [(''role'', ''user''),
           (''content'', criticism)],
          [(''role'', ''system''),
           (''content'', ''Please generate a new argument that incorporates the feedback from the user.'')]]
         response v"
    and "first_content response = Some v"
  using assms unfolding refiner_def by (rule clocked_step_returns)

lemma critic_returns:
  assumes "critic E argument extra s = (Inr v, s')"
  obtains rt rt' response where
    "events s' = events s @
       step_events ''critic'' [(''argument'', Str argument)] extra rt [] rt'
         [[(''role'', ''system''),
           (''content'', ''You are a critic.''
              @ [CHR 0x0A]
              @ ''What unresolved questions or criticism do you have after reading the following argument?''
              @ ''Provide a concise summary of your feedback.'')],
          [(''role'', ''system''),
           (''content'', argument)]]
         response v"
    and "first_content response = Some v"
proof -
  let ?data = "[[(''role'', ''system''),
           (''content'', ''You are a critic.''
              @ [CHR 0x0A]
              @ ''What unresolved questions or criticism do you have after reading the following argument?''
              @ ''Provide a concise summary of your feedback.'')],
          [(''role'', ''system''),
           (''content'', argument)]]"
  from assms have "traceable E chain ''critic'' [(''argument'', Str argument)] extra Str
      (\<lambda>_. seq (return ()) (\<lambda>t. call_openai E ?data None None None)) s = (Inr v, s')"
    unfolding critic_def seq_return .
  then obtain rt t rt' response where
    "events s' = events s @
       step_events ''critic'' [(''argument'', Str argument)] extra rt [] rt' ?data response v"
    and "first_content response = Some v"
    by (rule step_returns[where ticks = "\<lambda>t. []" and data = "\<lambda>_. ?data"])
       (simp add: return_def)
  then show thesis by (rule that)
qed

lemma argument_generator_step:
  assumes "argument_generator E query additional_description extra s = (Inr v, s')"
  obtains rt t rt' data response where
    "events s' = events s @
       step_events ''argument_generator''
         [(''query'', Str query), (''additional_description'', Str additional_description)]
         extra rt [Now t] rt' data response v"
    and "first_content response = Some v"
  by (rule argument_generator_returns[OF assms]) (rule that)

lemma critic_step:
  assumes "critic E argument extra s = (Inr v, s')"
  obtains rt rt' data response where
    "events s' = events s @
       step_events ''critic'' [(''argument'', Str argument)] extra rt [] rt' data response v"
    and "first_content response = Some v"
  by (rule critic_returns[OF assms]) (rule that)

lemma refiner_step:
  assumes "refiner E query additional_description current_arg criticism extra s = (Inr v, s')"
  obtains rt t rt' data response where
    "events s' = events s @
       step_events ''refiner''
         [(''query'', Str query), (''additional_description'', Str additional_description),
          (''current_arg'', Str current_arg), (''criticism'', Str criticism)]
         extra rt [Now t] rt' data response v"
    and "first_content response = Some v"
  by (rule refiner_returns[OF assms]) (rule that)

lemma chain_stepsI:
  assumes "evs =
          step_events ''argument_generator''
            [(''query'', Str query), (''additional_description'', Str additional_description)]
            None rt1 [Now t1] rt1' data1 response1 a
          @ step_events ''critic'' [(''argument'', Str a)] None rt2 [] rt2' data2 response2 c
          @ step_events ''refiner''
            [(''query'', Str query), (''additional_description'', Str additional_description),
             (''current_arg'', Str a), (''criticism'', Str c)]
            None rt3 [Now t3] rt3' data3 response3 v"
    and "first_content response1 = Some a"
    and "first_content response2 = Some c"
    and "first_content response3 = Some v"
  shows "chain_steps query additional_description v evs"
  unfolding chain_steps_def using assms by blast

lemma steps_runs:
  assumes "seq (argument_generator E query additional_description None) (\<lambda>argument.
             seq (critic E argument None) (\<lambda>criticism.
             refiner E query additional_description argument criticism None)) s = (Inr v, s')"
  obtains a s1 c s2 where
    "argument_generator E query additional_description None s = (Inr a, s1)"
    and "critic E a None s1 = (Inr c, s2)"
    and "refiner E query additional_description a c None s2 = (Inr v, s')"
  using assms unfolding seq_Inr by blast

lemma steps_return:
  assumes "seq (argument_generator E query additional_description None) (\<lambda>argument.
             seq (critic E argument None) (\<lambda>criticism.
             refiner E query additional_description argument criticism None)) s = (Inr v, s')"
  obtains evs where "events s' = events s @ evs"
    and "chain_steps query additional_description v evs"
proof -
  from assms obtain a s1 c s2 where
    g: "argument_generator E query additional_description None s = (Inr a, s1)"
    and k: "critic E a None s1 = (Inr c, s2)"
    and f: "refiner E query additional_description a c None s2 = (Inr v, s')"
    by (rule steps_runs)
  from g obtain rt1 t1 rt1' data1 response1 where
    e1: "events s1 = events s @
       step_events ''argument_generator''
         [(''query'', Str query), (''additional_description'', Str additional_description)]
         None rt1 [Now t1] rt1' data1 response1 a"
    and c1: "first_content response1 = Some a"
    by (rule argument_generator_step)
  from k obtain rt2 rt2' data2 response2 where
    e2: "events s2 = events s1 @
       step_events ''critic'' [(''argument'', Str a)] None rt2 [] rt2' data2 response2 c"
    and c2: "first_content response2 = Some c"
    by (rule critic_step)
  from f obtain rt3 t3 rt3' data3 response3 where
    e3: "events s' = events s2 @
       step_events ''refiner''
         [(''query'', Str query), (''additional_description'', Str additional_description),
          (''current_arg'', Str a), (''criticism'', Str c)]
         None rt3 [Now t3] rt3' data3 response3 v"
    and c3: "first_content response3 = Some v"
    by (rule refiner_step)
  let ?evs = "step_events ''argument_generator''
         [(''query'', Str query), (''additional_description'', Str additional_description)]
         None rt1 [Now t1] rt1' data1 response1 a
       @ step_events ''critic'' [(''argument'', Str a)] None rt2 [] rt2' data2 response2 c
       @ step_events ''refiner''
         [(''query'', Str query), (''additional_description'', Str additional_description),
          (''current_arg'', Str a), (''criticism'', Str c)]
         None rt3 [Now t3] rt3' data3 response3 v"
  from e1 e2 e3 have "events s' = events s @ ?evs" by simp
  moreover from c1 c2 c3 have "chain_steps query additional_description v ?evs"
    by (intro chain_stepsI[OF refl])
  ultimately show thesis by (rule that)
qed

text \<open>A decorated chain that returns: its run encloses the three steps.\<close>

lemma chain_returns:
  assumes "traceable E args fname inputs extra out
             (\<lambda>rt. seq (seq (argument_generator E query additional_description None)
                          (\<lambda>argument.
                        seq (critic E argument None) (\<lambda>criticism.
                        refiner E query additional_description argument criticism None)))
                     (\<lambda>refined_argument. return (g rt refined_argument))) s = (Inr w, s')"
  obtains rt v body where
    "events s' = events s @ call_events args fname inputs extra rt body (out w)"
    and "chain_steps query additional_description v body"
    and "w = g rt v"
proof -
  from assms obtain rt t1 s2 t3 v where
    body: "seq (argument_generator E query additional_description None) (\<lambda>argument.
             seq (critic E argument None) (\<lambda>criticism.
             refiner E query additional_description argument criticism None))
             (s\<lparr>events := events s @ [Post args fname inputs extra (Inr rt)], tracer := t1\<rparr>)
           = (Inr v, s2)"
    and w: "w = g rt v"
    and fin: "s' = s2\<lparr>events := events s2 @ [End rt (Inr (out w)) (Inr ())], tracer := t3\<rparr>"
    unfolding traceable_Inr seq_return_Inr by blast
  from body obtain evs where
    evs: "events s2 = events (s\<lparr>events := events s @ [Post args fname inputs extra (Inr rt)],
                               tracer := t1\<rparr>) @ evs"
    and steps: "chain_steps query additional_description v evs"
    by (rule steps_return)
  from evs fin have "events s' = events s @ call_events args fname inputs extra rt evs (out w)"
    by (simp add: call_events_def)
  then show thesis using steps w by (rule that)
qed

lemma argument_chain_returns:
  assumes "argument_chain E query additional_description extra s = (Inr v, s')"
  obtains rt body where
    "events s' = events s @
       call_events chain ''argument_chain''
         [(''query'', Str query), (''additional_description'', Str additional_description)]
         extra rt body (Str v)"
    and "chain_steps query additional_description v body"
proof -
  from assms have "traceable E chain ''argument_chain''
       [(''query'', Str query), (''additional_description'', Str additional_description)]
       extra Str
       (\<lambda>rt. seq (seq (argument_generator E query additional_description None)
                          (\<lambda>argument.
                        seq (critic E argument None) (\<lambda>criticism.
                        refiner E query additional_description argument criticism None)))
                     (\<lambda>refined_argument. return ((\<lambda>_ r. r) rt refined_argument))) s = (Inr v, s')"
    by (simp add: argument_chain_def seq_return_right)
  then obtain rt v' body where
    "events s' = events s @
       call_events chain ''argument_chain''
         [(''query'', Str query), (''additional_description'', Str additional_description)]
         extra rt body (Str v)"
    and "chain_steps query additional_description v' body" and "v = v'"
    by (rule chain_returns)
  then show thesis using that by simp
qed

lemma argument_chain_3_returns:
  assumes "argument_chain_3 E query additional_description extra s = (Inr v, s')"
  obtains rt body where
    "events s' = events s @
       call_events
         \<lparr>run_type = ''chain'', name = Some ''My Argument Chain'', tags = Some [''tutorial''],
          metadata = Some [(''githash'', Str ''e38f04c83'')]\<rparr>
         ''argument_chain_3''
         [(''query'', Str query), (''additional_description'', Str additional_description)]
         extra rt body (Str v)"
    and "chain_steps query additional_description v body"
proof -
  from assms have "traceable E
       \<lparr>run_type = ''chain'', name = Some ''My Argument Chain'', tags = Some [''tutorial''],
        metadata = Some [(''githash'', Str ''e38f04c83'')]\<rparr>
       ''argument_chain_3''
       [(''query'', Str query), (''additional_description'', Str additional_description)]
       extra Str
       (\<lambda>rt. seq (seq (argument_generator E query additional_description None)
                          (\<lambda>argument.
                        seq (critic E argument None) (\<lambda>criticism.
                        refiner E query additional_description argument criticism None)))
                     (\<lambda>refined_argument. return ((\<lambda>_ r. r) rt refined_argument))) s = (Inr v, s')"
    by (simp add: argument_chain_3_def seq_return_right)
  then obtain rt v' body where
    "events s' = events s @
       call_events
         \<lparr>run_type = ''chain'', name = Some ''My Argument Chain'', tags = Some [''tutorial''],
          metadata = Some [(''githash'', Str ''e38f04c83'')]\<rparr>
         ''argument_chain_3''
         [(''query'', Str query), (''additional_description'', Str additional_description)]
         extra rt body (Str v)"
    and "chain_steps query additional_description v' body" and "v = v'"
    by (rule chain_returns)
  then show thesis using that by simp
qed

lemma argument_chain2_returns:
  assumes "argument_chain2 E query additional_description extra s = (Inr (v, rid), s')"
  obtains rt body where
    "events s' = events s @
       call_events chain ''argument_chain2''
         [(''query'', Str query), (''additional_description'', Str additional_description)]
         extra rt body (Tuple [Str v, Uuid rid])"
    and "chain_steps query additional_description v body"
    and "rid = id' rt"
proof -
  from assms have "traceable E chain ''argument_chain2''
       [(''query'', Str query), (''additional_description'', Str additional_description)]
       extra (\<lambda>(refined_argument, rid). Tuple [Str refined_argument, Uuid rid])
       (\<lambda>rt. seq (seq (argument_generator E query additional_description None)
                          (\<lambda>argument.
                        seq (critic E argument None) (\<lambda>criticism.
                        refiner E query additional_description argument criticism None)))
                     (\<lambda>refined_argument. return ((\<lambda>rt r. (r, id' rt)) rt refined_argument))) s
       = (Inr (v, rid), s')"
    by (simp add: argument_chain2_def seq_assoc)
  then obtain rt v' body where
    "events s' = events s @
       call_events chain ''argument_chain2''
         [(''query'', Str query), (''additional_description'', Str additional_description)]
         extra rt body
         ((\<lambda>(refined_argument, rid). Tuple [Str refined_argument, Uuid rid]) (v, rid))"
    and "chain_steps query additional_description v' body" and "(v, rid) = (v', id' rt)"
    by (rule chain_returns)
  then show thesis using that by simp
qed

lemma cells_7_9_10_returns:
  assumes "cells_7_9_10 E s = (Inr (result, rid, shared_link), s')"
  obtains rt body where
    "events s' = events s @
       call_events chain ''argument_chain2''
         [(''query'', Str ''Whether sunshine is good for you.''),
          (''additional_description'',
           Str ''Provide a concise, few sentence argument on why sunshine is good for you.'')]
         None rt body (Tuple [Str result, Uuid rid])
       @ [Feedback rid ''user_feedback'' (Some 0.5)
            (Some [(''generation'', ''Sunshine is nice. Full stop.'')]) None (Inr ()),
          Share rid (Inr shared_link)]"
    and "rid = id' rt"
proof -
  from assms obtain s1 s2 where
    run: "argument_chain2 E ''Whether sunshine is good for you.''
            ''Provide a concise, few sentence argument on why sunshine is good for you.'' None s
          = (Inr (result, rid), s1)"
    and fb: "create_feedback E rid ''user_feedback'' (Some 0.5)
            (Some [(''generation'', ''Sunshine is nice. Full stop.'')]) None s1 = (Inr (), s2)"
    and sh: "share_run E rid s2 = (Inr shared_link, s')"
    unfolding cells_7_9_10_def by (auto simp: seq_Inr return_def)
  from run obtain rt body where
    e1: "events s1 = events s @
       call_events chain ''argument_chain2''
         [(''query'', Str ''Whether sunshine is good for you.''),
          (''additional_description'',
           Str ''Provide a concise, few sentence argument on why sunshine is good for you.'')]
         None rt body (Tuple [Str result, Uuid rid])"
    and rid: "rid = id' rt"
    by (rule argument_chain2_returns)
  from fb have e2: "events s2 = events s1 @ [Feedback rid ''user_feedback'' (Some 0.5)
            (Some [(''generation'', ''Sunshine is nice. Full stop.'')]) None (Inr ())]"
    by (auto simp: create_feedback_Inr)
  from sh have e3: "events s' = events s2 @ [Share rid (Inr shared_link)]"
    by (auto simp: share_run_Inr)
  from e1 e2 e3 have "events s' = events s @
       call_events chain ''argument_chain2''
         [(''query'', Str ''Whether sunshine is good for you.''),
          (''additional_description'',
           Str ''Provide a concise, few sentence argument on why sunshine is good for you.'')]
         None rt body (Tuple [Str result, Uuid rid])
       @ [Feedback rid ''user_feedback'' (Some 0.5)
            (Some [(''generation'', ''Sunshine is nice. Full stop.'')]) None (Inr ()),
          Share rid (Inr shared_link)]"
    by simp
  then show thesis using rid by (rule that)
qed

lemma cells_12_13_returns:
  assumes "cells_12_13 E s = (Inr (requested_uuid, result), s')"
  obtains rt body where
    "events s' = events s @
       Uuid4 requested_uuid #
       call_events
         \<lparr>run_type = ''chain'', name = Some ''My Argument Chain'', tags = Some [''tutorial''],
          metadata = Some [(''githash'', Str ''e38f04c83'')]\<rparr>
         ''argument_chain_3''
         [(''query'', Str ''Whether sunshine is good for you.''),
          (''additional_description'',
           Str ''Provide a concise, few sentence argument on why sunshine is good for you.'')]
         (Some \<lparr>extra_tags = Some [''another-tag''],
                extra_metadata = Some [(''another-key'', Integer 1)],
                run_id = Some requested_uuid\<rparr>)
         rt body (Str result)
       @ [Feedback requested_uuid ''user_feedback'' (Some 1) None
            (Some [(''origin'', ''example notebook'')]) (Inr ())]"
proof -
  from assms obtain s1 s2 where
    u: "new_uuid4 E s = (Inr requested_uuid, s1)"
    and run: "argument_chain_3 E ''Whether sunshine is good for you.''
            ''Provide a concise, few sentence argument on why sunshine is good for you.''
            (Some \<lparr>extra_tags = Some [''another-tag''],
                   extra_metadata = Some [(''another-key'', Integer 1)],
                   run_id = Some requested_uuid\<rparr>) s1
          = (Inr result, s2)"
    and fb: "create_feedback E requested_uuid ''user_feedback'' (Some 1) None
            (Some [(''origin'', ''example notebook'')]) s2 = (Inr (), s')"
    unfolding cells_12_13_def by (auto simp: seq_Inr return_def)
  from u have e0: "events s1 = events s @ [Uuid4 requested_uuid]"
    by (auto simp: new_uuid4_Inr)
  from run obtain rt body where
    e1: "events s2 = events s1 @
       call_events
         \<lparr>run_type = ''chain'', name = Some ''My Argument Chain'', tags = Some [''tutorial''],
          metadata = Some [(''githash'', Str ''e38f04c83'')]\<rparr>
         ''argument_chain_3''
         [(''query'', Str ''Whether sunshine is good for you.''),
          (''additional_description'',
           Str ''Provide a concise, few sentence argument on why sunshine is good for you.'')]
         (Some \<lparr>extra_tags = Some [''another-tag''],
                extra_metadata = Some [(''another-key'', Integer 1)],
                run_id = Some requested_uuid\<rparr>)
         rt body (Str result)"
    by (rule argument_chain_3_returns)
  from fb have e2: "events s' = events s2 @ [Feedback requested_uuid ''user_feedback'' (Some 1)
            None (Some [(''origin'', ''example notebook'')]) (Inr ())]"
    by (auto simp: create_feedback_Inr)
  from e0 e1 e2 show thesis by (intro that[of rt body]) simp
qed

lemma critic_chat_calls:
  assumes "critic E argument extra s = (Inr v, s')"
  obtains response where
    "chat_calls (new_events s s') =
       [(\<lparr>model = ''gpt-3.5-turbo'',
          messages =
            [[(''role'', ''system''),
              (''content'', ''You are a critic.''
                 @ [CHR 0x0A]
                 @ ''What unresolved questions or criticism do you have after reading the following argument?''
                 @ ''Provide a concise summary of your feedback.'')],
             [(''role'', ''system''),
              (''content'', argument)]],
          temperature = 0\<rparr>, Inr response)]"
    and "first_content response = Some v"
proof -
  from assms obtain rt rt' response where
    "events s' = events s @
       step_events ''critic'' [(''argument'', Str argument)] extra rt [] rt'
         [[(''role'', ''system''),
           (''content'', ''You are a critic.''
              @ [CHR 0x0A]
              @ ''What unresolved questions or criticism do you have after reading the following argument?''
              @ ''Provide a concise summary of your feedback.'')],
          [(''role'', ''system''),
           (''content'', argument)]]
         response v"
    and c: "first_content response = Some v"
    by (rule critic_returns)
  then have "chat_calls (new_events s s') =
       [(\<lparr>model = ''gpt-3.5-turbo'',
          messages =
            [[(''role'', ''system''),
              (''content'', ''You are a critic.''
                 @ [CHR 0x0A]
                 @ ''What unresolved questions or criticism do you have after reading the following argument?''
                 @ ''Provide a concise summary of your feedback.'')],
             [(''role'', ''system''),
              (''content'', argument)]],
          temperature = 0\<rparr>, Inr response)]"
    by (simp only: new_events_append chat_calls_step_events chat_calls.simps append_Nil)
  then show thesis using c by (rule that)
qed

lemma argument_generator_chat_calls:
  assumes "argument_generator E query additional_description extra s = (Inr v, s')"
  obtains req response where "chat_calls (new_events s s') = [(req, Inr response)]"
    and "first_content response = Some v"
proof -
  from assms obtain rt t rt' data response where
    "events s' = events s @
       step_events ''argument_generator''
         [(''query'', Str query), (''additional_description'', Str additional_description)]
         extra rt [Now t] rt' data response v"
    and c: "first_content response = Some v"
    by (rule argument_generator_step)
  then have "chat_calls (new_events s s') =
       [(\<lparr>model = ''gpt-3.5-turbo'', messages = data, temperature = 0\<rparr>, Inr response)]"
    by (simp add: new_events_append chat_calls_step_events)
  then show thesis using c by (rule that)
qed

lemma refiner_chat_calls:
  assumes "refiner E query additional_description current_arg criticism extra s = (Inr v, s')"
  obtains req response where "chat_calls (new_events s s') = [(req, Inr response)]"
    and "messages req ! 3 = [(''role'', ''user''), (''content'', criticism)]"
proof -
  from assms obtain rt t rt' response where
    "events s' = events s @
       step_events ''refiner''
         [(''query'', Str query), (''additional_description'', Str additional_description),
          (''current_arg'', Str current_arg), (''criticism'', Str criticism)]
         extra rt [Now t] rt'
         [[(''role'', ''system''),
           (''content'', ''You are a debater making an argument on a topic.''
              @ additional_description
              @ '' The current time is '' @ t)],
          [(''role'', ''user''),
           (''content'', ''The discussion topic is '' @ query)],
          [(''role'', ''assistant''),
           (''content'', current_arg)],
          [(''role'', ''user''),
           (''content'', criticism)],
          [(''role'', ''system''),
           (''content'', ''Please generate a new argument that incorporates the feedback from the user.'')]]
         response v"
    by (rule refiner_returns)
  then have "chat_calls (new_events s s') =
       [(\<lparr>model = ''gpt-3.5-turbo'',
          messages =
            [[(''role'', ''system''),
           (''content'', ''You are a debater making an argument on a topic.''
              @ additional_description
              @ '' The current time is '' @ t)],
          [(''role'', ''user''),
           (''content'', ''The discussion topic is '' @ query)],
          [(''role'', ''assistant''),
           (''content'', current_arg)],
          [(''role'', ''user''),
           (''content'', criticism)],
          [(''role'', ''system''),
           (''content'', ''Please generate a new argument that incorporates the feedback from the user.'')]],
          temperature = 0\<rparr>, Inr response)]"
    by (simp only: new_events_append chat_calls_step_events chat_calls.simps append_Nil)
  then show thesis
    by (rule that) (simp add: numeral_3_eq_3)
qed

lemma argument_chain_chat_calls:
  assumes "argument_chain E query additional_description extra s = (Inr v, s')"
  obtains g r1 a k r2 c f r3 where
    "chat_calls (new_events s s') = [(g, Inr r1), (k, Inr r2), (f, Inr r3)]"
    and "first_content r1 = Some a"
    and "k = \<lparr>model = ''gpt-3.5-turbo'',
              messages =
                [[(''role'', ''system''),
                  (''content'', ''You are a critic.''
                     @ [CHR 0x0A]
                     @ ''What unresolved questions or criticism do you have after reading the following argument?''
                     @ ''Provide a concise summary of your feedback.'')],
                 [(''role'', ''system''),
                  (''content'', a)]],
              temperature = 0\<rparr>"
    and "first_content r2 = Some c"
    and "messages f ! 3 = [(''role'', ''user''), (''content'', c)]"
proof -
  from assms obtain rt t1 sb t3 where
    body: "seq (argument_generator E query additional_description None) (\<lambda>argument.
             seq (critic E argument None) (\<lambda>criticism.
             refiner E query additional_description argument criticism None))
             (s\<lparr>events := events s @ [Post chain ''argument_chain''
                 [(''query'', Str query), (''additional_description'', Str additional_description)]
                 extra (Inr rt)], tracer := t1\<rparr>)
           = (Inr v, sb)"
    and fin: "s' = sb\<lparr>events := events sb @ [End rt (Inr (Str v)) (Inr ())], tracer := t3\<rparr>"
    unfolding argument_chain_def traceable_Inr by blast
  let ?sa = "s\<lparr>events := events s @ [Post chain ''argument_chain''
                 [(''query'', Str query), (''additional_description'', Str additional_description)]
                 extra (Inr rt)], tracer := t1\<rparr>"
  from body obtain a s1 c s2 where
    g: "argument_generator E query additional_description None ?sa = (Inr a, s1)"
    and k: "critic E a None s1 = (Inr c, s2)"
    and f: "refiner E query additional_description a c None s2 = (Inr v, sb)"
    by (rule steps_runs)
  from g obtain g' r1 where cg: "chat_calls (new_events ?sa s1) = [(g', Inr r1)]"
    and a: "first_content r1 = Some a"
    by (rule argument_generator_chat_calls)
  from k obtain r2 where ck: "chat_calls (new_events s1 s2) =
       [(\<lparr>model = ''gpt-3.5-turbo'',
          messages =
            [[(''role'', ''system''),
              (''content'', ''You are a critic.''
                 @ [CHR 0x0A]
                 @ ''What unresolved questions or criticism do you have after reading the following argument?''
                 @ ''Provide a concise summary of your feedback.'')],
             [(''role'', ''system''),
              (''content'', a)]],
          temperature = 0\<rparr>, Inr r2)]"
    and c: "first_content r2 = Some c"
    by (rule critic_chat_calls)
  from f obtain f' r3 where cf: "chat_calls (new_events s2 sb) = [(f', Inr r3)]"
    and m: "messages f' ! 3 = [(''role'', ''user''), (''content'', c)]"
    by (rule refiner_chat_calls)
  have e1: "events s1 = events ?sa @ new_events ?sa s1"
    by (rule events_grow[OF through_argument_generator g])
  have e2: "events s2 = events s1 @ new_events s1 s2"
    by (rule events_grow[OF through_critic k])
  have e3: "events sb = events s2 @ new_events s2 sb"
    by (rule events_grow[OF through_refiner f])
  have "events s' = events s @
          Post chain ''argument_chain''
                 [(''query'', Str query), (''additional_description'', Str additional_description)]
                 extra (Inr rt) # new_events ?sa s1 @ new_events s1 s2 @ new_events s2 sb
          @ [End rt (Inr (Str v)) (Inr ())]"
    using e1 e2 e3 fin by simp
  then have "new_events s s' =
          Post chain ''argument_chain''
                 [(''query'', Str query), (''additional_description'', Str additional_description)]
                 extra (Inr rt) # new_events ?sa s1 @ new_events s1 s2 @ new_events s2 sb
          @ [End rt (Inr (Str v)) (Inr ())]"
    by (rule new_events_append)
  then have "chat_calls (new_events s s') =
       [(g', Inr r1),
        (\<lparr>model = ''gpt-3.5-turbo'',
          messages =
            [[(''role'', ''system''),
              (''content'', ''You are a critic.''
                 @ [CHR 0x0A]
                 @ ''What unresolved questions or criticism do you have after reading the following argument?''
                 @ ''Provide a concise summary of your feedback.'')],
             [(''role'', ''system''),
              (''content'', a)]],
          temperature = 0\<rparr>, Inr r2),
        (f', Inr r3)]"
    by (simp only: chat_calls.simps chat_calls_append cg ck cf append_Cons append_Nil append_Nil2)
  then show thesis using a refl c m by (rule that)
qed

subsection \<open>Tracing does not change what the application computes\<close>

lemma world_detI:
  assumes "\<And>s1 s2 v1 v2 s1' s2'.
             world s1 = world s2 \<Longrightarrow> m1 s1 = (Inr v1, s1') \<Longrightarrow> m2 s2 = (Inr v2, s2')
             \<Longrightarrow> R v1 v2 \<and> world s1' = world s2'"
  shows "world_det R m1 m2"
  using assms unfolding world_det_def by blast

lemma world_detD:
  assumes "world_det R m1 m2" and "world s1 = world s2"
    and "m1 s1 = (Inr v1, s1')" and "m2 s2 = (Inr v2, s2')"
  shows "R v1 v2" and "world s1' = world s2'"
  using assms unfolding world_det_def by blast+

lemma det_seq:
  assumes m: "world_det R1 m1 m2"
    and f: "\<And>x1 x2. R1 x1 x2 \<Longrightarrow> world_det R (f1 x1) (f2 x2)"
  shows "world_det R (seq m1 f1) (seq m2 f2)"
proof (rule world_detI)
  fix s1 s2 v1 v2 s1' s2'
  assume w: "world s1 = world s2"
    and 1: "seq m1 f1 s1 = (Inr v1, s1')" and 2: "seq m2 f2 s2 = (Inr v2, s2')"
  from 1 obtain x1 t1 where a1: "m1 s1 = (Inr x1, t1)" and b1: "f1 x1 t1 = (Inr v1, s1')"
    unfolding seq_Inr by blast
  from 2 obtain x2 t2 where a2: "m2 s2 = (Inr x2, t2)" and b2: "f2 x2 t2 = (Inr v2, s2')"
    unfolding seq_Inr by blast
  from world_detD[OF m w a1 a2] have "R1 x1 x2" and "world t1 = world t2" .
  with f b1 b2 show "R v1 v2 \<and> world s1' = world s2'"
    by (blast dest: world_detD)
qed

lemma det_traceable:
  assumes "\<And>rt1 rt2. world_det R (body1 rt1) (body2 rt2)"
  shows "world_det R (traceable E1 args1 fname1 inputs1 extra1 out1 body1)
           (traceable E2 args2 fname2 inputs2 extra2 out2 body2)"
proof (rule world_detI)
  fix s1 s2 v1 v2 s1' s2'
  assume w: "world s1 = world s2"
    and 1: "traceable E1 args1 fname1 inputs1 extra1 out1 body1 s1 = (Inr v1, s1')"
    and 2: "traceable E2 args2 fname2 inputs2 extra2 out2 body2 s2 = (Inr v2, s2')"
  from 1 obtain rt1 k1 t1 k1' where
    b1: "body1 rt1 (s1\<lparr>events := events s1 @ [Post args1 fname1 inputs1 extra1 (Inr rt1)],
                      tracer := k1\<rparr>) = (Inr v1, t1)"
    and e1: "s1' = t1\<lparr>events := events t1 @ [End rt1 (Inr (out1 v1)) (Inr ())], tracer := k1'\<rparr>"
    unfolding traceable_Inr by blast
  from 2 obtain rt2 k2 t2 k2' where
    b2: "body2 rt2 (s2\<lparr>events := events s2 @ [Post args2 fname2 inputs2 extra2 (Inr rt2)],
                      tracer := k2\<rparr>) = (Inr v2, t2)"
    and e2: "s2' = t2\<lparr>events := events t2 @ [End rt2 (Inr (out2 v2)) (Inr ())], tracer := k2'\<rparr>"
    unfolding traceable_Inr by blast
  from w have "world (s1\<lparr>events := events s1 @ [Post args1 fname1 inputs1 extra1 (Inr rt1)],
                      tracer := k1\<rparr>)
             = world (s2\<lparr>events := events s2 @ [Post args2 fname2 inputs2 extra2 (Inr rt2)],
                      tracer := k2\<rparr>)"
    by simp
  from world_detD[OF assms this b1 b2] e1 e2
  show "R v1 v2 \<and> world s1' = world s2'" by simp
qed

lemma det_ChatCompletion_create:
  "world_det (=) (ChatCompletion_create E req) (ChatCompletion_create E req)"
  by (rule world_detI) (auto simp: ChatCompletion_create_Inr)

lemma det_now: "world_det (=) (now E) (now E)"
  by (rule world_detI) (auto simp: now_Inr)

lemma det_pick:
  "world_det (=)
     (case choices response of [] \<Rightarrow> raise IndexError | c # _ \<Rightarrow> return (content (message c)))
     (case choices response of [] \<Rightarrow> raise IndexError | c # _ \<Rightarrow> return (content (message c)))"
  by (rule world_detI) (auto simp: return_def raise_def split: list.splits)

lemma det_call_openai:
  "world_det (=) (call_openai E data model_arg temperature_arg extra1)
     (call_openai E data model_arg temperature_arg extra2)"
  unfolding call_openai_def
  by (intro det_traceable det_seq[where ?R1.0 = "(=)"] det_ChatCompletion_create)
     (simp add: det_pick)

lemma det_argument_generator:
  "world_det (=) (argument_generator E query additional_description extra1)
     (argument_generator E query additional_description extra2)"
  unfolding argument_generator_def
  by (intro det_traceable det_seq[where ?R1.0 = "(=)"] det_now) (simp add: det_call_openai)

lemma det_critic: "world_det (=) (critic E argument extra1) (critic E argument extra2)"
  unfolding critic_def by (intro det_traceable det_call_openai)

lemma det_refiner:
  "world_det (=) (refiner E query additional_description current_arg criticism extra1)
     (refiner E query additional_description current_arg criticism extra2)"
  unfolding refiner_def
  by (intro det_traceable det_seq[where ?R1.0 = "(=)"] det_now) (simp add: det_call_openai)

lemma det_steps:
  "world_det (=)
     (seq (argument_generator E query additional_description None) (\<lambda>argument.
        seq (critic E argument None) (\<lambda>criticism.
        refiner E query additional_description argument criticism None)))
     (seq (argument_generator E query additional_description None) (\<lambda>argument.
        seq (critic E argument None) (\<lambda>criticism.
        refiner E query additional_description argument criticism None)))"
  by (intro det_seq[where ?R1.0 = "(=)"] det_argument_generator)
     (auto intro!: det_seq[where ?R1.0 = "(=)"] det_critic det_refiner)

lemma det_seq_return:
  assumes "world_det (=) m1 m2"
  shows "world_det (\<lambda>v p. v = fst p) m1 (seq m2 (\<lambda>r. return (r, i)))"
proof (rule world_detI)
  fix s1 s2 v1 p s1' s2'
  assume w: "world s1 = world s2" and 1: "m1 s1 = (Inr v1, s1')"
    and 2: "seq m2 (\<lambda>r. return (r, i)) s2 = (Inr p, s2')"
  from 2 obtain v2 where "m2 s2 = (Inr v2, s2')" and "p = (v2, i)"
    unfolding seq_return_Inr by blast
  with world_detD[OF assms w 1] show "v1 = fst p \<and> world s1' = world s2'" by simp
qed

lemma det_chain_chain_3:
  "world_det (=) (argument_chain E query additional_description extra1)
     (argument_chain_3 E query additional_description extra3)"
  unfolding argument_chain_def argument_chain_3_def
  by (intro det_traceable det_steps)

lemma det_chain_chain2:
  "world_det (\<lambda>v p. v = fst p) (argument_chain E query additional_description extra1)
     (argument_chain2 E query additional_description extra2)"
proof -
  have "argument_chain2 E query additional_description extra2 =
     traceable E chain ''argument_chain2''
       [(''query'', Str query), (''additional_description'', Str additional_description)]
       extra2 (\<lambda>(refined_argument, rid). Tuple [Str refined_argument, Uuid rid])
       (\<lambda>run_tree.
          seq (seq (argument_generator E query additional_description None) (\<lambda>argument.
               seq (critic E argument None) (\<lambda>criticism.
               refiner E query additional_description argument criticism None)))
            (\<lambda>refined_argument. return (refined_argument, id' run_tree)))"
    by (simp add: argument_chain2_def seq_assoc)
  then show ?thesis
    unfolding argument_chain_def
    by (simp only:) (intro det_traceable det_seq_return det_steps)
qed

lemma traceable_under_tracing:
  assumes "tracing_succeeds E"
  obtains rt sa where "world sa = world s"
    and "fst (traceable E args fname inputs extra out body s) = fst (body rt sa)"
    and "world (snd (traceable E args fname inputs extra out body s)) = world (snd (body rt sa))"
proof -
  from assms obtain rt k where
    post: "post_run E args fname inputs extra (tracer s) = (Inr rt, k)"
    unfolding tracing_succeeds_def by blast
  let ?sa = "s\<lparr>events := events s @ [Post args fname inputs extra (Inr rt)], tracer := k\<rparr>"
  obtain rb sb where b: "body rt ?sa = (rb, sb)" by (cases "body rt ?sa")
  from assms obtain k' where
    fin: "end_run E rt (map_sum (\<lambda>e. e) out rb) (tracer sb) = (Inr (), k')"
    unfolding tracing_succeeds_def by blast
  from post b fin have
    "traceable E args fname inputs extra out body s =
       (rb, sb\<lparr>events := events sb @ [End rt (map_sum (\<lambda>e. e) out rb) (Inr ())], tracer := k'\<rparr>)"
    by (simp add: traceable_def run_post_def run_end_def)
  with b have "fst (traceable E args fname inputs extra out body s) = fst (body rt ?sa)"
    and "world (snd (traceable E args fname inputs extra out body s)) = world (snd (body rt ?sa))"
    by simp_all
  moreover have "world ?sa = world s" by simp
  ultimately show thesis using that by blast
qed

lemma world_simI:
  assumes "\<And>s1 s2. world s1 = world s2 \<Longrightarrow>
             rel_sum (=) R (fst (m1 s1)) (fst (m2 s2))
             \<and> world (snd (m1 s1)) = world (snd (m2 s2))"
  shows "world_sim R m1 m2"
  using assms unfolding world_sim_def by blast

lemma world_simD:
  assumes "world_sim R m1 m2" and "world s1 = world s2"
  shows "rel_sum (=) R (fst (m1 s1)) (fst (m2 s2))"
    and "world (snd (m1 s1)) = world (snd (m2 s2))"
  using assms unfolding world_sim_def by blast+

lemma sim_seq:
  fixes m1 :: "(('w, 't) state, 'a) io"
  assumes m: "world_sim R1 m1 m2"
    and f: "\<And>x1 x2. R1 x1 x2 \<Longrightarrow> world_sim R (f1 x1) (f2 x2)"
  shows "world_sim R (seq m1 f1) (seq m2 f2)"
proof (rule world_simI)
  fix s1 s2 :: "('w, 't) state"
  assume w: "world s1 = world s2"
  obtain r1 t1 where a1: "m1 s1 = (r1, t1)" by (cases "m1 s1")
  obtain r2 t2 where a2: "m2 s2 = (r2, t2)" by (cases "m2 s2")
  from world_simD[OF m w] a1 a2 have rel: "rel_sum (=) R1 r1 r2" and wt: "world t1 = world t2"
    by simp_all
  from rel show "rel_sum (=) R (fst (seq m1 f1 s1)) (fst (seq m2 f2 s2))
                  \<and> world (snd (seq m1 f1 s1)) = world (snd (seq m2 f2 s2))"
  proof (cases r1)
    case (Inl e)
    with rel have "r2 = Inl e" by (cases r2) simp_all
    with Inl a1 a2 wt show ?thesis by (simp add: seq_def)
  next
    case (Inr x1)
    with rel obtain x2 where r2: "r2 = Inr x2" and x: "R1 x1 x2" by (cases r2) simp_all
    from world_simD[OF f[OF x] wt] Inr r2 a1 a2 show ?thesis by (simp add: seq_def)
  qed
qed

lemma sim_traceable:
  fixes E1 :: "('w, 't) externals"
  assumes E1: "tracing_succeeds E1" and E2: "tracing_succeeds E2"
    and body: "\<And>rt1 rt2. world_sim R (body1 rt1) (body2 rt2)"
  shows "world_sim R (traceable E1 args1 fname1 inputs1 extra1 out1 body1)
           (traceable E2 args2 fname2 inputs2 extra2 out2 body2)"
proof (rule world_simI)
  fix s1 s2 :: "('w, 't) state"
  assume w: "world s1 = world s2"
  from E1 obtain rt1 sa1 where 1: "world sa1 = world s1"
    "fst (traceable E1 args1 fname1 inputs1 extra1 out1 body1 s1) = fst (body1 rt1 sa1)"
    "world (snd (traceable E1 args1 fname1 inputs1 extra1 out1 body1 s1))
       = world (snd (body1 rt1 sa1))"
    by (rule traceable_under_tracing)
  from E2 obtain rt2 sa2 where 2: "world sa2 = world s2"
    "fst (traceable E2 args2 fname2 inputs2 extra2 out2 body2 s2) = fst (body2 rt2 sa2)"
    "world (snd (traceable E2 args2 fname2 inputs2 extra2 out2 body2 s2))
       = world (snd (body2 rt2 sa2))"
    by (rule traceable_under_tracing)
  from w 1(1) 2(1) have "world sa1 = world sa2" by simp
  from world_simD[OF body this] 1(2,3) 2(2,3)
  show "rel_sum (=) R (fst (traceable E1 args1 fname1 inputs1 extra1 out1 body1 s1))
          (fst (traceable E2 args2 fname2 inputs2 extra2 out2 body2 s2))
        \<and> world (snd (traceable E1 args1 fname1 inputs1 extra1 out1 body1 s1))
          = world (snd (traceable E2 args2 fname2 inputs2 extra2 out2 body2 s2))"
    by simp
qed

lemma sim_refl_world:
  assumes "\<And>s. fst (m s) = fst (g (world s)) \<and> world (snd (m s)) = snd (g (world s))"
  shows "world_sim (=) m m"
  by (rule world_simI) (simp add: assms sum.rel_eq)

lemma sim_ChatCompletion_create:
  "world_sim (=) (ChatCompletion_create E req) (ChatCompletion_create E req)"
  by (rule sim_refl_world[where g = "openai_ChatCompletion_create E req"])
     (simp add: ChatCompletion_create_def split: prod.splits)

lemma sim_now: "world_sim (=) (now E) (now E)"
  by (rule sim_refl_world[where g = "\<lambda>w. case datetime_now E w of (t, w') \<Rightarrow> (Inr t, w')"])
     (simp add: now_def split: prod.splits)

lemma sim_return: "R v1 v2 \<Longrightarrow> world_sim R (return v1) (return v2)"
  by (rule world_simI) (simp add: return_def)

lemma sim_pick:
  "world_sim (=)
     (case choices response of [] \<Rightarrow> raise IndexError | c # _ \<Rightarrow> return (content (message c)))
     (case choices response of [] \<Rightarrow> raise IndexError | c # _ \<Rightarrow> return (content (message c)))"
  by (rule world_simI) (simp add: return_def raise_def sum.rel_eq split: list.splits)

lemma sim_call_openai:
  assumes "tracing_succeeds E"
  shows "world_sim (=) (call_openai E data model_arg temperature_arg extra1)
     (call_openai E data model_arg temperature_arg extra2)"
  unfolding call_openai_def
  by (intro sim_traceable assms sim_seq[where ?R1.0 = "(=)"] sim_ChatCompletion_create)
     (simp add: sim_pick)

lemma sim_argument_generator:
  assumes "tracing_succeeds E"
  shows "world_sim (=) (argument_generator E query additional_description extra1)
     (argument_generator E query additional_description extra2)"
  unfolding argument_generator_def
  by (intro sim_traceable assms sim_seq[where ?R1.0 = "(=)"] sim_now)
     (simp add: sim_call_openai assms)

lemma sim_critic:
  assumes "tracing_succeeds E"
  shows "world_sim (=) (critic E argument extra1) (critic E argument extra2)"
  unfolding critic_def by (intro sim_traceable sim_call_openai assms)

lemma sim_refiner:
  assumes "tracing_succeeds E"
  shows "world_sim (=) (refiner E query additional_description current_arg criticism extra1)
     (refiner E query additional_description current_arg criticism extra2)"
  unfolding refiner_def
  by (intro sim_traceable assms sim_seq[where ?R1.0 = "(=)"] sim_now)
     (simp add: sim_call_openai assms)

lemma sim_steps:
  assumes "tracing_succeeds E"
  shows "world_sim (=)
     (seq (argument_generator E query additional_description None) (\<lambda>argument.
        seq (critic E argument None) (\<lambda>criticism.
        refiner E query additional_description argument criticism None)))
     (seq (argument_generator E query additional_description None) (\<lambda>argument.
        seq (critic E argument None) (\<lambda>criticism.
        refiner E query additional_description argument criticism None)))"
  by (intro sim_seq[where ?R1.0 = "(=)"] sim_argument_generator assms)
     (auto intro!: sim_seq[where ?R1.0 = "(=)"] sim_critic sim_refiner assms)

lemma sim_chain_chain_3:
  assumes "tracing_succeeds E"
  shows "world_sim (=) (argument_chain E query additional_description extra1)
     (argument_chain_3 E query additional_description extra3)"
  unfolding argument_chain_def argument_chain_3_def
  by (intro sim_traceable sim_steps assms)

lemma sim_chain_chain2:
  assumes "tracing_succeeds E"
  shows "world_sim (\<lambda>v p. v = fst p) (argument_chain E query additional_description extra1)
     (argument_chain2 E query additional_description extra2)"
proof -
  have 2: "argument_chain2 E query additional_description extra2 =
     traceable E chain ''argument_chain2''
       [(''query'', Str query), (''additional_description'', Str additional_description)]
       extra2 (\<lambda>(refined_argument, rid). Tuple [Str refined_argument, Uuid rid])
       (\<lambda>run_tree.
          seq (seq (argument_generator E query additional_description None) (\<lambda>argument.
               seq (critic E argument None) (\<lambda>criticism.
               refiner E query additional_description argument criticism None)))
            (\<lambda>refined_argument. return (refined_argument, id' run_tree)))"
    by (simp add: argument_chain2_def seq_assoc)
  have 1: "argument_chain E query additional_description extra1 =
     traceable E chain ''argument_chain''
       [(''query'', Str query), (''additional_description'', Str additional_description)]
       extra1 Str
       (\<lambda>run_tree.
          seq (seq (argument_generator E query additional_description None) (\<lambda>argument.
               seq (critic E argument None) (\<lambda>criticism.
               refiner E query additional_description argument criticism None)))
            (\<lambda>refined_argument. return refined_argument))"
    by (simp add: argument_chain_def seq_return_right)
  show ?thesis
    unfolding 1 2
    by (intro sim_traceable assms sim_seq[where ?R1.0 = "(=)"] sim_steps) (simp add: sim_return)
qed

subsection \<open>With services that answer, the functions return\<close>

lemma totalI:
  assumes "\<And>s. \<exists>v. fst (m s) = Inr v \<and> Q v"
  shows "total Q m"
  using assms unfolding total_def by blast

lemma totalD:
  assumes "total Q m"
  obtains v where "fst (m s) = Inr v" and "Q v"
  using assms unfolding total_def by blast

lemma total_seq:
  assumes m: "total Q1 m" and f: "\<And>x. Q1 x \<Longrightarrow> total Q (f x)"
  shows "total Q (seq m f)"
proof (rule totalI)
  fix s
  from m obtain x where x: "fst (m s) = Inr x" and q: "Q1 x" by (rule totalD)
  from x have "seq m f s = f x (snd (m s))"
    by (cases "m s") (simp add: seq_def)
  moreover from f[OF q] obtain v where "fst (f x (snd (m s))) = Inr v" and "Q v"
    by (rule totalD)
  ultimately show "\<exists>v. fst (seq m f s) = Inr v \<and> Q v" by simp
qed

lemma total_traceable:
  assumes E: "tracing_succeeds E" and body: "\<And>rt. total Q (body rt)"
  shows "total Q (traceable E args fname inputs extra out body)"
proof (rule totalI)
  fix s
  from E obtain rt sa where
    "fst (traceable E args fname inputs extra out body s) = fst (body rt sa)"
    by (rule traceable_under_tracing)
  moreover from body obtain v where "fst (body rt sa) = Inr v" and "Q v" by (rule totalD)
  ultimately show "\<exists>v. fst (traceable E args fname inputs extra out body s) = Inr v \<and> Q v"
    by simp
qed

lemma total_now: "total (\<lambda>_. True) (now E)"
  by (rule totalI) (simp add: now_def split: prod.splits)

lemma total_ChatCompletion_create:
  fixes E :: "('w, 't) externals"
  assumes "\<forall>req w. \<exists>response w'.
             openai_ChatCompletion_create E req w = (Inr response, w')
             \<and> first_content response = Some x"
  shows "total (\<lambda>response. first_content response = Some x) (ChatCompletion_create E req)"
proof (rule totalI)
  fix s :: "('w, 't) state"
  from assms obtain response w' where
    "openai_ChatCompletion_create E req (world s) = (Inr response, w')"
    and "first_content response = Some x"
    by blast
  then show "\<exists>v. fst (ChatCompletion_create E req s) = Inr v \<and> first_content v = Some x"
    by (simp add: ChatCompletion_create_def)
qed

lemma total_pick:
  assumes "first_content response = Some x"
  shows "total (\<lambda>v. v = x)
           (case choices response of [] \<Rightarrow> raise IndexError
            | c # _ \<Rightarrow> return (content (message c)))"
  using assms
  by (intro totalI) (simp add: first_content_def return_def split: list.splits)

lemma total_call_openai:
  assumes "tracing_succeeds E"
    and "\<forall>req w. \<exists>response w'.
           openai_ChatCompletion_create E req w = (Inr response, w')
           \<and> first_content response = Some x"
  shows "total (\<lambda>v. v = x) (call_openai E data model_arg temperature_arg extra)"
  unfolding call_openai_def
  by (intro total_traceable assms(1) total_seq[OF total_ChatCompletion_create[OF assms(2)]])
     (rule total_pick)

subsection \<open>Running the chat application on the mock services\<close>

lemma events_s0: "events s0 = []"
  by (simp add: s0_def)

lemma tracing_succeeds_mock: "tracing_succeeds mock"
  by (simp add: tracing_succeeds_def mock_def)

lemma mock_run_post:
  "run_post mock args fname inputs None \<lparr>events = evs, world = n, tracer = k\<rparr> =
     (Inr \<lparr>id' = k\<rparr>,
      \<lparr>events = evs @ [Post args fname inputs None (Inr \<lparr>id' = k\<rparr>)],
       world = n, tracer = k + 1\<rparr>)"
  by (simp add: run_post_def mock_def)

lemma mock_run_post_requested:
  "run_post mock args fname inputs
       (Some \<lparr>extra_tags = ts, extra_metadata = md, run_id = Some u\<rparr>)
       \<lparr>events = evs, world = n, tracer = k\<rparr> =
     (Inr \<lparr>id' = u\<rparr>,
      \<lparr>events = evs @ [Post args fname inputs
          (Some \<lparr>extra_tags = ts, extra_metadata = md, run_id = Some u\<rparr>) (Inr \<lparr>id' = u\<rparr>)],
       world = n, tracer = k + 1\<rparr>)"
  by (simp add: run_post_def mock_def)

lemma mock_now:
  "now mock \<lparr>events = evs, world = n, tracer = k\<rparr> =
     (Inr ''T'', \<lparr>events = evs @ [Now ''T''], world = n, tracer = k\<rparr>)"
  by (simp add: now_def mock_def)

lemma mock_run_end:
  "run_end mock rt r \<lparr>events = evs, world = n, tracer = k\<rparr> =
     (Inr (), \<lparr>events = evs @ [End rt r (Inr ())], world = n, tracer = k\<rparr>)"
  by (simp add: run_end_def mock_def)

lemma mock_ChatCompletion_create:
  "ChatCompletion_create mock req \<lparr>events = evs, world = n, tracer = k\<rparr> =
     (Inr \<lparr>choices = [\<lparr>message = \<lparr>role = ''assistant'',
            content = (if n = 0 then ''A'' else if n = 1 then ''B'' else ''C'')\<rparr>\<rparr>]\<rparr>,
      \<lparr>events = evs @ [Chat req (Inr \<lparr>choices = [\<lparr>message = \<lparr>role = ''assistant'',
            content = (if n = 0 then ''A'' else if n = 1 then ''B'' else ''C'')\<rparr>\<rparr>]\<rparr>)],
       world = Suc n, tracer = k\<rparr>)"
  by (simp add: ChatCompletion_create_def mock_def)

lemma mock_create_feedback:
  "create_feedback mock rid key score correction source_info
       \<lparr>events = evs, world = n, tracer = k\<rparr> =
     (Inr (),
      \<lparr>events = evs @ [Feedback rid key score correction source_info (Inr ())],
       world = n, tracer = k\<rparr>)"
  by (simp add: create_feedback_def mock_def)

lemma mock_share_run:
  "share_run mock rid \<lparr>events = evs, world = n, tracer = k\<rparr> =
     (Inr ''link'', \<lparr>events = evs @ [Share rid (Inr ''link'')], world = n, tracer = k\<rparr>)"
  by (simp add: share_run_def mock_def)

lemma mock_new_uuid4:
  "new_uuid4 mock \<lparr>events = evs, world = n, tracer = k\<rparr> =
     (Inr 99, \<lparr>events = evs @ [Uuid4 99], world = n, tracer = k\<rparr>)"
  by (simp add: new_uuid4_def mock_def)

lemma mock_call_openai:
  "call_openai mock data None None None \<lparr>events = evs, world = n, tracer = k\<rparr> =
     (Inr (if n = 0 then ''A'' else if n = 1 then ''B'' else ''C''),
      \<lparr>events = evs @ call_openai_events \<lparr>id' = k\<rparr> data
         \<lparr>choices = [\<lparr>message = \<lparr>role = ''assistant'',
            content = (if n = 0 then ''A'' else if n = 1 then ''B'' else ''C'')\<rparr>\<rparr>]\<rparr>
         (if n = 0 then ''A'' else if n = 1 then ''B'' else ''C''),
       world = Suc n, tracer = k + 1\<rparr>)"
  by (simp add: call_openai_def traceable_def seq_def mock_run_post mock_run_end
        mock_ChatCompletion_create return_def call_openai_events_def call_events_def)

lemma mock_argument_generator:
  "argument_generator mock q d None \<lparr>events = evs, world = 0, tracer = k\<rparr> =
     (Inr ''A'',
      \<lparr>events = evs @ step_events ''argument_generator''
         [(''query'', Str q), (''additional_description'', Str d)] None \<lparr>id' = k\<rparr>
         [Now ''T''] \<lparr>id' = k + 1\<rparr>
         [[(''role'', ''system''),
           (''content'', ''You are a debater making an argument on a topic.'' @ d
              @ '' The current time is '' @ ''T'')],
          [(''role'', ''user''), (''content'', ''The discussion topic is '' @ q)]]
         \<lparr>choices = [\<lparr>message = \<lparr>role = ''assistant'', content = ''A''\<rparr>\<rparr>]\<rparr> ''A'',
       world = Suc 0, tracer = k + 2\<rparr>)"
  unfolding argument_generator_def traceable_def seq_def
  by (simp add: mock_run_post mock_now mock_run_end mock_call_openai step_events_def
        call_events_def add.assoc)

lemma mock_critic:
  "critic mock a None \<lparr>events = evs, world = Suc 0, tracer = k\<rparr> =
     (Inr ''B'',
      \<lparr>events = evs @ step_events ''critic'' [(''argument'', Str a)] None \<lparr>id' = k\<rparr>
         [] \<lparr>id' = k + 1\<rparr>
         [[(''role'', ''system''),
           (''content'', ''You are a critic.''
              @ [CHR 0x0A]
              @ ''What unresolved questions or criticism do you have after reading the following argument?''
              @ ''Provide a concise summary of your feedback.'')],
          [(''role'', ''system''), (''content'', a)]]
         \<lparr>choices = [\<lparr>message = \<lparr>role = ''assistant'', content = ''B''\<rparr>\<rparr>]\<rparr> ''B'',
       world = Suc (Suc 0), tracer = k + 2\<rparr>)"
  unfolding critic_def traceable_def seq_def
  by (simp add: mock_run_post mock_run_end mock_call_openai step_events_def
        call_events_def add.assoc)

lemma mock_refiner:
  "refiner mock q d a c None \<lparr>events = evs, world = Suc (Suc 0), tracer = k\<rparr> =
     (Inr ''C'',
      \<lparr>events = evs @ step_events ''refiner''
         [(''query'', Str q), (''additional_description'', Str d),
          (''current_arg'', Str a), (''criticism'', Str c)] None \<lparr>id' = k\<rparr>
         [Now ''T''] \<lparr>id' = k + 1\<rparr>
         [[(''role'', ''system''),
           (''content'', ''You are a debater making an argument on a topic.'' @ d
              @ '' The current time is '' @ ''T'')],
          [(''role'', ''user''), (''content'', ''The discussion topic is '' @ q)],
          [(''role'', ''assistant''), (''content'', a)],
          [(''role'', ''user''), (''content'', c)],
          [(''role'', ''system''),
           (''content'', ''Please generate a new argument that incorporates the feedback from the user.'')]]
         \<lparr>choices = [\<lparr>message = \<lparr>role = ''assistant'', content = ''C''\<rparr>\<rparr>]\<rparr> ''C'',
       world = Suc (Suc (Suc 0)), tracer = k + 2\<rparr>)"
  unfolding refiner_def traceable_def seq_def
  by (simp add: mock_run_post mock_now mock_run_end mock_call_openai step_events_def
        call_events_def add.assoc)

lemma mock_steps:
  "seq (argument_generator mock q d None) (\<lambda>argument.
     seq (critic mock argument None) (\<lambda>criticism.
     refiner mock q d argument criticism None)) \<lparr>events = evs, world = 0, tracer = k\<rparr> =
   (Inr ''C'',
    snd (refiner mock q d ''A'' ''B'' None
      (snd (critic mock ''A'' None
        (snd (argument_generator mock q d None \<lparr>events = evs, world = 0, tracer = k\<rparr>))))))"
  by (simp add: seq_def mock_argument_generator mock_critic mock_refiner)

lemma mock_argument_chain:
  "argument_chain mock q d None s0 =
     (Inr ''C'',
      \<lparr>events =
         call_events chain ''argument_chain''
           [(''query'', Str q), (''additional_description'', Str d)] None \<lparr>id' = 0\<rparr>
           (events (snd (refiner mock q d ''A'' ''B'' None
              (snd (critic mock ''A'' None
                (snd (argument_generator mock q d None
                   \<lparr>events = [], world = 0, tracer = 1\<rparr>)))))))
           (Str ''C''),
       world = Suc (Suc (Suc 0)), tracer = 7\<rparr>)"
  unfolding argument_chain_def traceable_def s0_def
  by (simp add: mock_run_post mock_run_end mock_steps mock_argument_generator mock_critic
        mock_refiner call_events_def)

lemma mock_argument_chain2:
  "argument_chain2 mock q d None s0 =
     (Inr (''C'', 0),
      \<lparr>events =
         call_events chain ''argument_chain2''
           [(''query'', Str q), (''additional_description'', Str d)] None \<lparr>id' = 0\<rparr>
           (events (snd (refiner mock q d ''A'' ''B'' None
              (snd (critic mock ''A'' None
                (snd (argument_generator mock q d None
                   \<lparr>events = [], world = 0, tracer = 1\<rparr>)))))))
           (Tuple [Str ''C'', Uuid 0]),
       world = Suc (Suc (Suc 0)), tracer = 7\<rparr>)"
  unfolding argument_chain2_def traceable_def s0_def
  by (simp add: seq_def mock_run_post mock_run_end mock_argument_generator mock_critic
        mock_refiner call_events_def return_def)

lemma mock_argument_chain_3:
  "argument_chain_3 mock q d None s0 =
     (Inr ''C'',
      \<lparr>events =
         call_events
           \<lparr>run_type = ''chain'', name = Some ''My Argument Chain'', tags = Some [''tutorial''],
            metadata = Some [(''githash'', Str ''e38f04c83'')]\<rparr>
           ''argument_chain_3''
           [(''query'', Str q), (''additional_description'', Str d)] None \<lparr>id' = 0\<rparr>
           (events (snd (refiner mock q d ''A'' ''B'' None
              (snd (critic mock ''A'' None
                (snd (argument_generator mock q d None
                   \<lparr>events = [], world = 0, tracer = 1\<rparr>)))))))
           (Str ''C''),
       world = Suc (Suc (Suc 0)), tracer = 7\<rparr>)"
  unfolding argument_chain_3_def traceable_def s0_def
  by (simp add: mock_run_post mock_run_end mock_steps mock_argument_generator mock_critic
        mock_refiner call_events_def)

lemma mock_chain_requests:
  "chat_requests (new_events s0 (snd (argument_chain mock ''q'' ''d'' None s0))) =
     [\<lparr>model = ''gpt-3.5-turbo'',
       messages =
         [[(''role'', ''system''),
           (''content'', ''You are a debater making an argument on a topic.d The current time is T'')],
          [(''role'', ''user''), (''content'', ''The discussion topic is q'')]],
       temperature = 0\<rparr>,
      \<lparr>model = ''gpt-3.5-turbo'',
       messages =
         [[(''role'', ''system''),
           (''content'', ''You are a critic.'' @ [CHR 0x0A]
              @ ''What unresolved questions or criticism do you have after reading the following argument?Provide a concise summary of your feedback.'')],
          [(''role'', ''system''), (''content'', ''A'')]],
       temperature = 0\<rparr>,
      \<lparr>model = ''gpt-3.5-turbo'',
       messages =
         [[(''role'', ''system''),
           (''content'', ''You are a debater making an argument on a topic.d The current time is T'')],
          [(''role'', ''user''), (''content'', ''The discussion topic is q'')],
          [(''role'', ''assistant''), (''content'', ''A'')],
          [(''role'', ''user''), (''content'', ''B'')],
          [(''role'', ''system''),
           (''content'', ''Please generate a new argument that incorporates the feedback from the user.'')]],
       temperature = 0\<rparr>]"
  by (simp add: mock_argument_chain mock_argument_generator mock_critic mock_refiner
        new_events_def events_s0 call_events_def step_events_def call_openai_events_def
        chat_requests_simps chat_requests_append)




lemma mock_cells_7_9_10: "fst (cells_7_9_10 mock s0) = Inr (''C'', 0, ''link'')"
  unfolding cells_7_9_10_def
  by (simp add: seq_def mock_argument_chain2 mock_create_feedback mock_share_run return_def)

lemma mock_cells_12_13: "fst (cells_12_13 mock s0) = Inr (99, ''C'')"
  unfolding cells_12_13_def argument_chain_3_def traceable_def s0_def
  by (simp add: seq_def mock_new_uuid4 mock_run_post_requested mock_run_end
        mock_argument_generator mock_critic mock_refiner mock_create_feedback return_def)

section \<open>The claims\<close>

text \<open>
  C1. Each of \<^verbatim>\<open>argument_chain\<close>, \<^verbatim>\<open>argument_chain2\<close> and \<^verbatim>\<open>argument_chain_3\<close> is a
  linear call chain. Whenever one of them returns, the events it has added to the log are
  those of its own run, enclosing, in this order and with nothing else: a call of
  \<^verbatim>\<open>argument_generator\<close> on the query and the additional description, a call of
  \<^verbatim>\<open>critic\<close> on the argument that call returned, and a call of \<^verbatim>\<open>refiner\<close> on the
  query, the additional description, that argument and the criticism that \<^verbatim>\<open>critic\<close>
  returned. Each of the three calls encloses exactly one call of \<^verbatim>\<open>call_openai\<close>, and
  the chain returns what \<^verbatim>\<open>refiner\<close> returned.
\<close>

theorem linear_chain:
  "(argument_chain E query additional_description extra s = (Inr v, s') \<longrightarrow>
      (\<exists>rt body.
         new_events s s' =
           call_events chain ''argument_chain''
             [(''query'', Str query), (''additional_description'', Str additional_description)]
             extra rt body (Str v)
         \<and> chain_steps query additional_description v body))
   \<and> (argument_chain2 E query additional_description extra s = (Inr (v, rid), s') \<longrightarrow>
      (\<exists>rt body.
         new_events s s' =
           call_events chain ''argument_chain2''
             [(''query'', Str query), (''additional_description'', Str additional_description)]
             extra rt body (Tuple [Str v, Uuid rid])
         \<and> chain_steps query additional_description v body))
   \<and> (argument_chain_3 E query additional_description extra s = (Inr v, s') \<longrightarrow>
      (\<exists>rt body.
         new_events s s' =
           call_events
             \<lparr>run_type = ''chain'', name = Some ''My Argument Chain'', tags = Some [''tutorial''],
              metadata = Some [(''githash'', Str ''e38f04c83'')]\<rparr>
             ''argument_chain_3''
             [(''query'', Str query), (''additional_description'', Str additional_description)]
             extra rt body (Str v)
         \<and> chain_steps query additional_description v body))"
proof (intro conjI impI)
  assume "argument_chain E query additional_description extra s = (Inr v, s')"
  then show "\<exists>rt body.
         new_events s s' =
           call_events chain ''argument_chain''
             [(''query'', Str query), (''additional_description'', Str additional_description)]
             extra rt body (Str v)
         \<and> chain_steps query additional_description v body"
    by (elim argument_chain_returns) (auto simp: new_events_append)
next
  assume "argument_chain2 E query additional_description extra s = (Inr (v, rid), s')"
  then show "\<exists>rt body.
         new_events s s' =
           call_events chain ''argument_chain2''
             [(''query'', Str query), (''additional_description'', Str additional_description)]
             extra rt body (Tuple [Str v, Uuid rid])
         \<and> chain_steps query additional_description v body"
    by (elim argument_chain2_returns) (auto simp: new_events_append)
next
  assume "argument_chain_3 E query additional_description extra s = (Inr v, s')"
  then show "\<exists>rt body.
         new_events s s' =
           call_events
             \<lparr>run_type = ''chain'', name = Some ''My Argument Chain'', tags = Some [''tutorial''],
              metadata = Some [(''githash'', Str ''e38f04c83'')]\<rparr>
             ''argument_chain_3''
             [(''query'', Str query), (''additional_description'', Str additional_description)]
             extra rt body (Str v)
         \<and> chain_steps query additional_description v body"
    by (elim argument_chain_3_returns) (auto simp: new_events_append)
qed

theorem linear_chain_witness:
  "argument_chain mock ''q'' ''d'' None s0
     = (Inr ''C'', snd (argument_chain mock ''q'' ''d'' None s0))
   \<and> (\<exists>rt body.
         new_events s0 (snd (argument_chain mock ''q'' ''d'' None s0)) =
           call_events chain ''argument_chain''
             [(''query'', Str ''q''), (''additional_description'', Str ''d'')]
             None rt body (Str ''C'')
         \<and> chain_steps ''q'' ''d'' ''C'' body)
   \<and> argument_chain2 mock ''q'' ''d'' None s0
     = (Inr (''C'', 0), snd (argument_chain2 mock ''q'' ''d'' None s0))
   \<and> (\<exists>rt body.
         new_events s0 (snd (argument_chain2 mock ''q'' ''d'' None s0)) =
           call_events chain ''argument_chain2''
             [(''query'', Str ''q''), (''additional_description'', Str ''d'')]
             None rt body (Tuple [Str ''C'', Uuid 0])
         \<and> chain_steps ''q'' ''d'' ''C'' body)
   \<and> argument_chain_3 mock ''q'' ''d'' None s0
     = (Inr ''C'', snd (argument_chain_3 mock ''q'' ''d'' None s0))
   \<and> (\<exists>rt body.
         new_events s0 (snd (argument_chain_3 mock ''q'' ''d'' None s0)) =
           call_events
             \<lparr>run_type = ''chain'', name = Some ''My Argument Chain'', tags = Some [''tutorial''],
              metadata = Some [(''githash'', Str ''e38f04c83'')]\<rparr>
             ''argument_chain_3''
             [(''query'', Str ''q''), (''additional_description'', Str ''d'')]
             None rt body (Str ''C'')
         \<and> chain_steps ''q'' ''d'' ''C'' body)"
proof -
  have 1: "argument_chain mock ''q'' ''d'' None s0
             = (Inr ''C'', snd (argument_chain mock ''q'' ''d'' None s0))"
    by (simp add: mock_argument_chain)
  have 2: "argument_chain2 mock ''q'' ''d'' None s0
             = (Inr (''C'', 0), snd (argument_chain2 mock ''q'' ''d'' None s0))"
    by (simp add: mock_argument_chain2)
  have 3: "argument_chain_3 mock ''q'' ''d'' None s0
             = (Inr ''C'', snd (argument_chain_3 mock ''q'' ''d'' None s0))"
    by (simp add: mock_argument_chain_3)
  from 1 2 3 show ?thesis
    using linear_chain [where E = mock and query = "''q''" and additional_description = "''d''"
                          and extra = None and s = s0 and v = "''C''" and rid = 0
                          and s' = "snd (argument_chain mock ''q'' ''d'' None s0)"]
      linear_chain [where E = mock and query = "''q''" and additional_description = "''d''"
                          and extra = None and s = s0 and v = "''C''" and rid = 0
                          and s' = "snd (argument_chain2 mock ''q'' ''d'' None s0)"]
      linear_chain [where E = mock and query = "''q''" and additional_description = "''d''"
                          and extra = None and s = s0 and v = "''C''" and rid = 0
                          and s' = "snd (argument_chain_3 mock ''q'' ''d'' None s0)"]
    by blast
qed

text \<open>
  C2. With mocked services, a tracing client that never raises and a chat-completion
  API that always answers with a response whose text is \<open>x\<close>, each of
  \<^verbatim>\<open>argument_generator\<close>, \<^verbatim>\<open>critic\<close> and \<^verbatim>\<open>refiner\<close> returns, for all inputs and from
  every state, and what it returns is exactly \<open>x\<close>.
\<close>

theorem wrappers_pass_through:
  "tracing_succeeds E \<longrightarrow>
   (\<forall>req w. \<exists>response w'.
      openai_ChatCompletion_create E req w = (Inr response, w')
      \<and> first_content response = Some x) \<longrightarrow>
   fst (argument_generator E query additional_description extra s) = Inr x
   \<and> fst (critic E argument extra s) = Inr x
   \<and> fst (refiner E query additional_description current_arg criticism extra s) = Inr x"
proof (intro impI)
  assume E: "tracing_succeeds E"
    and api: "\<forall>req w. \<exists>response w'.
      openai_ChatCompletion_create E req w = (Inr response, w')
      \<and> first_content response = Some x"
  have g: "total (\<lambda>v. v = x) (argument_generator E query additional_description extra)"
    unfolding argument_generator_def
    by (intro total_traceable E total_seq[OF total_now] total_call_openai[OF E api])
  have k: "total (\<lambda>v. v = x) (critic E argument extra)"
    unfolding critic_def
    by (intro total_traceable E total_call_openai[OF E api])
  have f: "total (\<lambda>v. v = x)
             (refiner E query additional_description current_arg criticism extra)"
    unfolding refiner_def
    by (intro total_traceable E total_seq[OF total_now] total_call_openai[OF E api])
  from g k f
  show "fst (argument_generator E query additional_description extra s) = Inr x
   \<and> fst (critic E argument extra s) = Inr x
   \<and> fst (refiner E query additional_description current_arg criticism extra s) = Inr x"
    unfolding total_def by metis
qed

theorem wrappers_pass_through_witness:
  "tracing_succeeds mock_fixed
   \<and> (\<forall>req w. \<exists>response w'.
        openai_ChatCompletion_create mock_fixed req w = (Inr response, w')
        \<and> first_content response = Some ''fixed'')
   \<and> fst (argument_generator mock_fixed ''q'' ''d'' None s0) = Inr ''fixed''
   \<and> fst (critic mock_fixed ''a'' None s0) = Inr ''fixed''
   \<and> fst (refiner mock_fixed ''q'' ''d'' ''a'' ''c'' None s0) = Inr ''fixed''"
proof -
  have 1: "tracing_succeeds mock_fixed"
    by (simp add: tracing_succeeds_def mock_fixed_def mock_def)
  have 2: "\<forall>req w. \<exists>response w'.
        openai_ChatCompletion_create mock_fixed req w = (Inr response, w')
        \<and> first_content response = Some ''fixed''"
    by (simp add: mock_fixed_def mock_def first_content_def)
  from wrappers_pass_through [of mock_fixed "''fixed''" "''q''" "''d''" None s0 "''a''" "''a''" "''c''"]
    1 2
  show ?thesis by blast
qed




text \<open>
  C4. The run identifier is handed on unchanged. When \<^verbatim>\<open>argument_chain2\<close> returns, the
  second component of its value is the id of the run tree that the tracing client
  created for this very call and that the decorator injected. In cells 7, 9 and 10 that
  value is the run id given to \<^verbatim>\<open>create_feedback\<close> and to \<^verbatim>\<open>share_run\<close>; in cells 12
  and 13 the uuid drawn by the caller is the one passed as \<^verbatim>\<open>run_id\<close> in
  \<^verbatim>\<open>langsmith_extra\<close> and the one given to \<^verbatim>\<open>create_feedback\<close>.
\<close>

theorem run_id_handed_on:
  "(argument_chain2 E query additional_description extra s = (Inr (v, rid), s') \<longrightarrow>
      (\<exists>rt body.
         new_events s s' =
           call_events chain ''argument_chain2''
             [(''query'', Str query), (''additional_description'', Str additional_description)]
             extra rt body (Tuple [Str v, Uuid rid])
         \<and> rid = id' rt))
   \<and> (cells_7_9_10 E s = (Inr (result, rid, shared_link), s') \<longrightarrow>
      (\<exists>rt body.
         new_events s s' =
           call_events chain ''argument_chain2''
             [(''query'', Str ''Whether sunshine is good for you.''),
              (''additional_description'',
               Str ''Provide a concise, few sentence argument on why sunshine is good for you.'')]
             None rt body (Tuple [Str result, Uuid rid])
           @ [Feedback rid ''user_feedback'' (Some 0.5)
                (Some [(''generation'', ''Sunshine is nice. Full stop.'')]) None (Inr ()),
              Share rid (Inr shared_link)]
         \<and> rid = id' rt))
   \<and> (cells_12_13 E s = (Inr (requested_uuid, result), s') \<longrightarrow>
      (\<exists>rt body.
         new_events s s' =
           Uuid4 requested_uuid #
           call_events
             \<lparr>run_type = ''chain'', name = Some ''My Argument Chain'', tags = Some [''tutorial''],
              metadata = Some [(''githash'', Str ''e38f04c83'')]\<rparr>
             ''argument_chain_3''
             [(''query'', Str ''Whether sunshine is good for you.''),
              (''additional_description'',
               Str ''Provide a concise, few sentence argument on why sunshine is good for you.'')]
             (Some \<lparr>extra_tags = Some [''another-tag''],
                    extra_metadata = Some [(''another-key'', Integer 1)],
                    run_id = Some requested_uuid\<rparr>)
             rt body (Str result)
           @ [Feedback requested_uuid ''user_feedback'' (Some 1) None
                (Some [(''origin'', ''example notebook'')]) (Inr ())]))"
proof (intro conjI impI)
  assume "argument_chain2 E query additional_description extra s = (Inr (v, rid), s')"
  then show "\<exists>rt body.
         new_events s s' =
           call_events chain ''argument_chain2''
             [(''query'', Str query), (''additional_description'', Str additional_description)]
             extra rt body (Tuple [Str v, Uuid rid])
         \<and> rid = id' rt"
    by (elim argument_chain2_returns) (auto simp: new_events_append)
next
  assume "cells_7_9_10 E s = (Inr (result, rid, shared_link), s')"
  then show "\<exists>rt body.
         new_events s s' =
           call_events chain ''argument_chain2''
             [(''query'', Str ''Whether sunshine is good for you.''),
              (''additional_description'',
               Str ''Provide a concise, few sentence argument on why sunshine is good for you.'')]
             None rt body (Tuple [Str result, Uuid rid])
           @ [Feedback rid ''user_feedback'' (Some 0.5)
                (Some [(''generation'', ''Sunshine is nice. Full stop.'')]) None (Inr ()),
              Share rid (Inr shared_link)]
         \<and> rid = id' rt"
    by (elim cells_7_9_10_returns) (auto simp: new_events_append)
next
  assume "cells_12_13 E s = (Inr (requested_uuid, result), s')"
  then show "\<exists>rt body.
         new_events s s' =
           Uuid4 requested_uuid #
           call_events
             \<lparr>run_type = ''chain'', name = Some ''My Argument Chain'', tags = Some [''tutorial''],
              metadata = Some [(''githash'', Str ''e38f04c83'')]\<rparr>
             ''argument_chain_3''
             [(''query'', Str ''Whether sunshine is good for you.''),
              (''additional_description'',
               Str ''Provide a concise, few sentence argument on why sunshine is good for you.'')]
             (Some \<lparr>extra_tags = Some [''another-tag''],
                    extra_metadata = Some [(''another-key'', Integer 1)],
                    run_id = Some requested_uuid\<rparr>)
             rt body (Str result)
           @ [Feedback requested_uuid ''user_feedback'' (Some 1) None
                (Some [(''origin'', ''example notebook'')]) (Inr ())]"
    by (elim cells_12_13_returns) (auto simp: new_events_append)
qed

theorem run_id_handed_on_witness:
  "argument_chain2 mock ''q'' ''d'' None s0
     = (Inr (''C'', 0), snd (argument_chain2 mock ''q'' ''d'' None s0))
   \<and> (\<exists>rt body.
         new_events s0 (snd (argument_chain2 mock ''q'' ''d'' None s0)) =
           call_events chain ''argument_chain2''
             [(''query'', Str ''q''), (''additional_description'', Str ''d'')]
             None rt body (Tuple [Str ''C'', Uuid 0])
         \<and> 0 = id' rt)
   \<and> cells_7_9_10 mock s0 = (Inr (''C'', 0, ''link''), snd (cells_7_9_10 mock s0))
   \<and> (\<exists>rt body.
         new_events s0 (snd (cells_7_9_10 mock s0)) =
           call_events chain ''argument_chain2''
             [(''query'', Str ''Whether sunshine is good for you.''),
              (''additional_description'',
               Str ''Provide a concise, few sentence argument on why sunshine is good for you.'')]
             None rt body (Tuple [Str ''C'', Uuid 0])
           @ [Feedback 0 ''user_feedback'' (Some 0.5)
                (Some [(''generation'', ''Sunshine is nice. Full stop.'')]) None (Inr ()),
              Share 0 (Inr ''link'')]
         \<and> 0 = id' rt)
   \<and> cells_12_13 mock s0 = (Inr (99, ''C''), snd (cells_12_13 mock s0))
   \<and> (\<exists>rt body.
         new_events s0 (snd (cells_12_13 mock s0)) =
           Uuid4 99 #
           call_events
             \<lparr>run_type = ''chain'', name = Some ''My Argument Chain'', tags = Some [''tutorial''],
              metadata = Some [(''githash'', Str ''e38f04c83'')]\<rparr>
             ''argument_chain_3''
             [(''query'', Str ''Whether sunshine is good for you.''),
              (''additional_description'',
               Str ''Provide a concise, few sentence argument on why sunshine is good for you.'')]
             (Some \<lparr>extra_tags = Some [''another-tag''],
                    extra_metadata = Some [(''another-key'', Integer 1)],
                    run_id = Some 99\<rparr>)
             rt body (Str ''C'')
           @ [Feedback 99 ''user_feedback'' (Some 1) None
                (Some [(''origin'', ''example notebook'')]) (Inr ())])"
proof -
  have 1: "argument_chain2 mock ''q'' ''d'' None s0
             = (Inr (''C'', 0), snd (argument_chain2 mock ''q'' ''d'' None s0))"
    by (simp add: mock_argument_chain2)
  have 2: "cells_7_9_10 mock s0 = (Inr (''C'', 0, ''link''), snd (cells_7_9_10 mock s0))"
    by (simp add: prod_eq_iff mock_cells_7_9_10)
  have 3: "cells_12_13 mock s0 = (Inr (99, ''C''), snd (cells_12_13 mock s0))"
    by (simp add: prod_eq_iff mock_cells_12_13)
  from 1 2 3 show ?thesis
    using run_id_handed_on [where E = mock and query = "''q''" and additional_description = "''d''"
        and extra = None and s = s0 and v = "''C''" and rid = 0
        and s' = "snd (argument_chain2 mock ''q'' ''d'' None s0)"]
      run_id_handed_on [where E = mock and s = s0 and result = "''C''" and rid = 0
        and shared_link = "''link''" and s' = "snd (cells_7_9_10 mock s0)"]
      run_id_handed_on [where E = mock and s = s0 and result = "''C''" and requested_uuid = 99
        and s' = "snd (cells_12_13 mock s0)"]
    by blast
qed

text \<open>
  C5. \<^verbatim>\<open>call_openai\<close> makes at most one request to the chat-completion API, and that
  request carries exactly the message list it was given, in its order, with the model
  and the temperature it was given (the defaults of the signature when they are
  omitted); when it returns, the request was made, and the value is the content of the
  message of the first choice of the API's response.
\<close>

theorem call_openai_single_request:
  "call_openai E data model_arg temperature_arg extra s = (result, s') \<longrightarrow>
     chat_requests (new_events s s') \<in>
       {[], [\<lparr>model = (case model_arg of None \<Rightarrow> ''gpt-3.5-turbo'' | Some m \<Rightarrow> m),
              messages = data,
              temperature = (case temperature_arg of None \<Rightarrow> 0 | Some t \<Rightarrow> t)\<rparr>]}
     \<and> (\<forall>v. result = Inr v \<longrightarrow>
          (\<exists>response.
             chat_calls (new_events s s') =
               [(\<lparr>model = (case model_arg of None \<Rightarrow> ''gpt-3.5-turbo'' | Some m \<Rightarrow> m),
                  messages = data,
                  temperature = (case temperature_arg of None \<Rightarrow> 0 | Some t \<Rightarrow> t)\<rparr>,
                 Inr response)]
             \<and> first_content response = Some v))"
proof (intro impI conjI allI)
  assume run: "call_openai E data model_arg temperature_arg extra s = (result, s')"
  let ?req = "\<lparr>model = (case model_arg of None \<Rightarrow> ''gpt-3.5-turbo'' | Some m \<Rightarrow> m),
               messages = data,
               temperature = (case temperature_arg of None \<Rightarrow> 0 | Some t \<Rightarrow> t)\<rparr>"
  from requests_of_call_openai run obtain evs where
    "events s' = events s @ evs" and "chat_requests evs \<in> {[], [?req]}"
    by (rule appendsD)
  then show "chat_requests (new_events s s') \<in> {[], [?req]}"
    by (simp add: new_events_append)
  fix v
  assume "result = Inr v"
  with run have "call_openai E data model_arg temperature_arg extra s = (Inr v, s')" by simp
  from call_openai_returns[OF this]
  show "\<exists>response. chat_calls (new_events s s') = [(?req, Inr response)]
          \<and> first_content response = Some v"
    by (auto simp: new_events_append chat_calls_call_events)
qed

theorem call_openai_single_request_witness:
  "call_openai mock [[(''role'', ''user''), (''content'', ''hi'')]] (Some ''gpt-4'') (Some 1) None s0
     = (Inr ''A'',
        snd (call_openai mock [[(''role'', ''user''), (''content'', ''hi'')]]
               (Some ''gpt-4'') (Some 1) None s0))
   \<and> (\<exists>response.
         chat_calls (new_events s0
           (snd (call_openai mock [[(''role'', ''user''), (''content'', ''hi'')]]
               (Some ''gpt-4'') (Some 1) None s0))) =
             [(\<lparr>model = ''gpt-4'', messages = [[(''role'', ''user''), (''content'', ''hi'')]],
                temperature = 1\<rparr>, Inr response)]
         \<and> first_content response = Some ''A'')"
proof -
  have "fst (call_openai mock [[(''role'', ''user''), (''content'', ''hi'')]]
               (Some ''gpt-4'') (Some 1) None s0) = Inr ''A''"
    by (simp add: call_openai_def traceable_def seq_def s0_def mock_run_post mock_run_end
          mock_ChatCompletion_create return_def)
  then have run: "call_openai mock [[(''role'', ''user''), (''content'', ''hi'')]]
                    (Some ''gpt-4'') (Some 1) None s0
     = (Inr ''A'',
        snd (call_openai mock [[(''role'', ''user''), (''content'', ''hi'')]]
               (Some ''gpt-4'') (Some 1) None s0))"
    by (rule run_eq)
  with call_openai_single_request [of mock "[[(''role'', ''user''), (''content'', ''hi'')]]"
         "Some ''gpt-4''" "Some 1" None s0 "Inr ''A''"
         "snd (call_openai mock [[(''role'', ''user''), (''content'', ''hi'')]]
               (Some ''gpt-4'') (Some 1) None s0)"]
  show ?thesis by simp
qed

text \<open>
  C6. Every chat message that \<^verbatim>\<open>argument_generator\<close>, \<^verbatim>\<open>critic\<close> and \<^verbatim>\<open>refiner\<close>
  construct, alone or within a chain, for all inputs and whatever the outcome of the
  run, is a dict of a \<^verbatim>\<open>role\<close> and a \<^verbatim>\<open>content\<close>, both strings, whose role is one of
  \<^verbatim>\<open>system\<close>, \<^verbatim>\<open>user\<close> and \<^verbatim>\<open>assistant\<close>.
\<close>

theorem message_roles:
  "requests_all (\<lambda>req. \<forall>m \<in> set (messages req). valid_message m)
     (argument_generator E query additional_description extra)
   \<and> requests_all (\<lambda>req. \<forall>m \<in> set (messages req). valid_message m)
     (critic E argument extra)
   \<and> requests_all (\<lambda>req. \<forall>m \<in> set (messages req). valid_message m)
     (refiner E query additional_description current_arg criticism extra)
   \<and> requests_all (\<lambda>req. \<forall>m \<in> set (messages req). valid_message m)
     (argument_chain E query additional_description extra)
   \<and> requests_all (\<lambda>req. \<forall>m \<in> set (messages req). valid_message m)
     (argument_chain2 E query additional_description extra)
   \<and> requests_all (\<lambda>req. \<forall>m \<in> set (messages req). valid_message m)
     (argument_chain_3 E query additional_description extra)"
  by (intro conjI requests_allI requests_chains requests_argument_generator requests_critic
        requests_refiner) (simp_all add: valid_message_def)

theorem message_roles_witness:
  "length (chat_requests (new_events s0 (snd (argument_chain mock ''q'' ''d'' None s0)))) = 3
   \<and> list_all (\<lambda>req. list_all valid_message (messages req))
         (chat_requests (new_events s0 (snd (argument_chain mock ''q'' ''d'' None s0))))
   \<and> list_all (\<lambda>req. messages req \<noteq> [])
         (chat_requests (new_events s0 (snd (argument_chain mock ''q'' ''d'' None s0))))"
proof -
  from message_roles [of mock "''q''" "''d''" None]
  have "\<forall>req \<in> set (chat_requests (new_events s0 (snd (argument_chain mock ''q'' ''d'' None s0)))).
          \<forall>m \<in> set (messages req). valid_message m"
    unfolding requests_all_def by blast
  then have "list_all (\<lambda>req. list_all valid_message (messages req))
         (chat_requests (new_events s0 (snd (argument_chain mock ''q'' ''d'' None s0))))"
    by (simp only: list_all_iff)
  moreover
  have "length (chat_requests (new_events s0 (snd (argument_chain mock ''q'' ''d'' None s0)))) = 3"
    and "list_all (\<lambda>req. messages req \<noteq> [])
         (chat_requests (new_events s0 (snd (argument_chain mock ''q'' ''d'' None s0))))"
    by (simp_all add: mock_chain_requests)
  ultimately show ?thesis by blast
qed

text \<open>
  C7. The prompts are built by interpolating the inputs into fixed texts. In every
  request that \<^verbatim>\<open>argument_generator\<close> makes, the user message is
  \<^verbatim>\<open>The discussion topic is\<close> followed by the query, after a system message that ends
  with the time read from the clock; in every request of \<^verbatim>\<open>critic\<close> the argument is the
  content of the second message; in every request of \<^verbatim>\<open>refiner\<close> the current argument
  and the criticism are the contents of the assistant message and of the user message
  that follows it.
\<close>

theorem prompt_interpolation:
  "requests_all
     (\<lambda>req. \<exists>t. messages req =
        [[(''role'', ''system''),
          (''content'', ''You are a debater making an argument on a topic.''
             @ additional_description
             @ '' The current time is '' @ t)],
         [(''role'', ''user''),
          (''content'', ''The discussion topic is '' @ query)]])
     (argument_generator E query additional_description extra)
   \<and> requests_all
     (\<lambda>req. messages req =
        [[(''role'', ''system''),
          (''content'', ''You are a critic.''
             @ [CHR 0x0A]
             @ ''What unresolved questions or criticism do you have after reading the following argument?''
             @ ''Provide a concise summary of your feedback.'')],
         [(''role'', ''system''),
          (''content'', argument)]])
     (critic E argument extra)
   \<and> requests_all
     (\<lambda>req. \<exists>t. messages req =
        [[(''role'', ''system''),
          (''content'', ''You are a debater making an argument on a topic.''
             @ additional_description
             @ '' The current time is '' @ t)],
         [(''role'', ''user''),
          (''content'', ''The discussion topic is '' @ query)],
         [(''role'', ''assistant''),
          (''content'', current_arg)],
         [(''role'', ''user''),
          (''content'', criticism)],
         [(''role'', ''system''),
          (''content'', ''Please generate a new argument that incorporates the feedback from the user.'')]])
     (refiner E query additional_description current_arg criticism extra)"
  by (intro conjI requests_allI requests_argument_generator requests_critic requests_refiner)
     simp_all


theorem prompt_interpolation_witness:
  "chat_requests (new_events s0 (snd (argument_generator mock ''q'' ''d'' None s0))) \<noteq> []
   \<and> list_all
        (\<lambda>req. \<exists>t. messages req =
          [[(''role'', ''system''),
            (''content'', ''You are a debater making an argument on a topic.'' @ ''d''
               @ '' The current time is '' @ t)],
           [(''role'', ''user''), (''content'', ''The discussion topic is '' @ ''q'')]])
        (chat_requests (new_events s0 (snd (argument_generator mock ''q'' ''d'' None s0))))
   \<and> chat_requests (new_events \<lparr>events = [], world = Suc 0, tracer = 0\<rparr>
         (snd (critic mock ''a'' None \<lparr>events = [], world = Suc 0, tracer = 0\<rparr>))) \<noteq> []
   \<and> list_all
        (\<lambda>req. messages req =
          [[(''role'', ''system''),
            (''content'', ''You are a critic.''
               @ [CHR 0x0A]
               @ ''What unresolved questions or criticism do you have after reading the following argument?''
               @ ''Provide a concise summary of your feedback.'')],
           [(''role'', ''system''), (''content'', ''a'')]])
        (chat_requests (new_events \<lparr>events = [], world = Suc 0, tracer = 0\<rparr>
           (snd (critic mock ''a'' None \<lparr>events = [], world = Suc 0, tracer = 0\<rparr>))))
   \<and> chat_requests (new_events \<lparr>events = [], world = Suc (Suc 0), tracer = 0\<rparr>
         (snd (refiner mock ''q'' ''d'' ''a'' ''c'' None
                 \<lparr>events = [], world = Suc (Suc 0), tracer = 0\<rparr>))) \<noteq> []
   \<and> list_all
        (\<lambda>req. \<exists>t. messages req =
          [[(''role'', ''system''),
            (''content'', ''You are a debater making an argument on a topic.'' @ ''d''
               @ '' The current time is '' @ t)],
           [(''role'', ''user''), (''content'', ''The discussion topic is '' @ ''q'')],
           [(''role'', ''assistant''), (''content'', ''a'')],
           [(''role'', ''user''), (''content'', ''c'')],
           [(''role'', ''system''),
            (''content'', ''Please generate a new argument that incorporates the feedback from the user.'')]])
        (chat_requests (new_events \<lparr>events = [], world = Suc (Suc 0), tracer = 0\<rparr>
           (snd (refiner mock ''q'' ''d'' ''a'' ''c'' None
                   \<lparr>events = [], world = Suc (Suc 0), tracer = 0\<rparr>))))"
proof -
  note inst = prompt_interpolation [where E = mock and query = "''q''"
      and additional_description = "''d''" and argument = "''a''" and current_arg = "''a''"
      and criticism = "''c''" and extra = None, unfolded requests_all_def]
  have 1: "chat_requests (new_events s0 (snd (argument_generator mock ''q'' ''d'' None s0))) \<noteq> []"
    by (simp add: s0_def mock_argument_generator new_events_def step_events_def call_events_def
          call_openai_events_def chat_requests_simps chat_requests_append)
  have 2: "chat_requests (new_events \<lparr>events = [], world = Suc 0, tracer = 0\<rparr>
         (snd (critic mock ''a'' None \<lparr>events = [], world = Suc 0, tracer = 0\<rparr>))) \<noteq> []"
    by (simp add: mock_critic new_events_def step_events_def call_events_def
          call_openai_events_def chat_requests_simps chat_requests_append)
  have 3: "chat_requests (new_events \<lparr>events = [], world = Suc (Suc 0), tracer = 0\<rparr>
         (snd (refiner mock ''q'' ''d'' ''a'' ''c'' None
                 \<lparr>events = [], world = Suc (Suc 0), tracer = 0\<rparr>))) \<noteq> []"
    by (simp add: mock_refiner new_events_def step_events_def call_events_def
          call_openai_events_def chat_requests_simps chat_requests_append)
  from inst 1 2 3 show ?thesis unfolding list_all_iff by blast
qed

text \<open>
  C8. The three chain variants compute the same refined argument. From states with the
  same application world (the chat-completion API, the clock), whenever
  \<^verbatim>\<open>argument_chain\<close>, \<^verbatim>\<open>argument_chain2\<close> and \<^verbatim>\<open>argument_chain_3\<close> return, the value of the
  first, the first component of the value of the second and the value of the third are
  the same string, whatever the tracing client does and whatever \<^verbatim>\<open>langsmith_extra\<close>
  each is given. With a tracing client that never raises, the three outcomes agree
  altogether: the same string, or the same exception.
\<close>

theorem chains_agree:
  "(world u1 = world u2 \<longrightarrow> world u2 = world u3 \<longrightarrow>
      argument_chain E query additional_description extra1 u1 = (Inr v1, u1') \<longrightarrow>
      argument_chain2 E query additional_description extra2 u2 = (Inr (v2, rid), u2') \<longrightarrow>
      argument_chain_3 E query additional_description extra3 u3 = (Inr v3, u3') \<longrightarrow>
      v1 = v2 \<and> v2 = v3)
   \<and> (tracing_succeeds E \<longrightarrow> world u1 = world u2 \<longrightarrow> world u2 = world u3 \<longrightarrow>
      fst (argument_chain E query additional_description extra1 u1)
        = map_sum (\<lambda>e. e) fst (fst (argument_chain2 E query additional_description extra2 u2))
      \<and> fst (argument_chain E query additional_description extra1 u1)
        = fst (argument_chain_3 E query additional_description extra3 u3))"
proof (intro conjI impI)
  assume w12: "world u1 = world u2" and w23: "world u2 = world u3"
    and 1: "argument_chain E query additional_description extra1 u1 = (Inr v1, u1')"
    and 2: "argument_chain2 E query additional_description extra2 u2 = (Inr (v2, rid), u2')"
    and 3: "argument_chain_3 E query additional_description extra3 u3 = (Inr v3, u3')"
  from world_detD(1)[OF det_chain_chain2 w12 1 2] show "v1 = v2" by simp
  from w12 w23 have "world u1 = world u3" by simp
  from world_detD(1)[OF det_chain_chain_3 this 1 3] \<open>v1 = v2\<close> show "v2 = v3" by simp
next
  assume E: "tracing_succeeds E" and w12: "world u1 = world u2" and w23: "world u2 = world u3"
  from world_simD(1)[OF sim_chain_chain2[OF E] w12]
  have "rel_sum (=) (\<lambda>v p. v = fst p)
          (fst (argument_chain E query additional_description extra1 u1))
          (fst (argument_chain2 E query additional_description extra2 u2))" .
  then show "fst (argument_chain E query additional_description extra1 u1)
        = map_sum (\<lambda>e. e) fst (fst (argument_chain2 E query additional_description extra2 u2))"
    by (cases "fst (argument_chain E query additional_description extra1 u1)";
        cases "fst (argument_chain2 E query additional_description extra2 u2)") simp_all
  from w12 w23 have "world u1 = world u3" by simp
  from world_simD(1)[OF sim_chain_chain_3[OF E] this]
  show "fst (argument_chain E query additional_description extra1 u1)
        = fst (argument_chain_3 E query additional_description extra3 u3)"
    by (simp add: sum.rel_eq)
qed

theorem chains_agree_witness:
  "world s0 = world s0
   \<and> argument_chain mock ''q'' ''d'' None s0
       = (Inr ''C'', snd (argument_chain mock ''q'' ''d'' None s0))
   \<and> argument_chain2 mock ''q'' ''d'' None s0
       = (Inr (''C'', 0), snd (argument_chain2 mock ''q'' ''d'' None s0))
   \<and> argument_chain_3 mock ''q'' ''d'' None s0
       = (Inr ''C'', snd (argument_chain_3 mock ''q'' ''d'' None s0))
   \<and> tracing_succeeds mock
   \<and> fst (argument_chain mock ''q'' ''d'' None s0)
        = map_sum (\<lambda>e. e) fst (fst (argument_chain2 mock ''q'' ''d'' None s0))
   \<and> fst (argument_chain mock ''q'' ''d'' None s0)
        = fst (argument_chain_3 mock ''q'' ''d'' None s0)"
proof -
  have 1: "argument_chain mock ''q'' ''d'' None s0
       = (Inr ''C'', snd (argument_chain mock ''q'' ''d'' None s0))"
    by (simp add: mock_argument_chain)
  have 2: "argument_chain2 mock ''q'' ''d'' None s0
       = (Inr (''C'', 0), snd (argument_chain2 mock ''q'' ''d'' None s0))"
    by (simp add: mock_argument_chain2)
  have 3: "argument_chain_3 mock ''q'' ''d'' None s0
       = (Inr ''C'', snd (argument_chain_3 mock ''q'' ''d'' None s0))"
    by (simp add: mock_argument_chain_3)
  from chains_agree [where E = mock and query = "''q''" and additional_description = "''d''"
      and ?extra1.0 = None and ?extra2.0 = None and ?extra3.0 = None
      and ?u1.0 = s0 and ?u2.0 = s0 and ?u3.0 = s0] tracing_succeeds_mock
  have "fst (argument_chain mock ''q'' ''d'' None s0)
        = map_sum (\<lambda>e. e) fst (fst (argument_chain2 mock ''q'' ''d'' None s0))
      \<and> fst (argument_chain mock ''q'' ''d'' None s0)
        = fst (argument_chain_3 mock ''q'' ''d'' None s0)"
    by blast
  with 1 2 3 tracing_succeeds_mock show ?thesis by blast
qed

text \<open>
  C9. No call site of \<^verbatim>\<open>call_openai\<close> overrides the model or the temperature: every
  chat-completion request made during a run of a chain variant, or of
  \<^verbatim>\<open>argument_generator\<close>, \<^verbatim>\<open>critic\<close> or \<^verbatim>\<open>refiner\<close>, whatever the outcome of the run,
  has the model \<^verbatim>\<open>gpt-3.5-turbo\<close> and the temperature 0.0.
\<close>

theorem default_parameters:
  "requests_all (\<lambda>req. model req = ''gpt-3.5-turbo'' \<and> temperature req = 0)
     (argument_chain E query additional_description extra)
   \<and> requests_all (\<lambda>req. model req = ''gpt-3.5-turbo'' \<and> temperature req = 0)
     (argument_chain2 E query additional_description extra)
   \<and> requests_all (\<lambda>req. model req = ''gpt-3.5-turbo'' \<and> temperature req = 0)
     (argument_chain_3 E query additional_description extra)
   \<and> requests_all (\<lambda>req. model req = ''gpt-3.5-turbo'' \<and> temperature req = 0)
     (argument_generator E query additional_description extra)
   \<and> requests_all (\<lambda>req. model req = ''gpt-3.5-turbo'' \<and> temperature req = 0)
     (critic E argument extra)
   \<and> requests_all (\<lambda>req. model req = ''gpt-3.5-turbo'' \<and> temperature req = 0)
     (refiner E query additional_description current_arg criticism extra)"
  by (intro conjI requests_allI requests_chains requests_argument_generator requests_critic
        requests_refiner) simp_all

theorem default_parameters_witness:
  "length (chat_requests (new_events s0 (snd (argument_chain mock ''q'' ''d'' None s0)))) = 3
   \<and> list_all (\<lambda>req. model req = ''gpt-3.5-turbo'' \<and> temperature req = 0)
         (chat_requests (new_events s0 (snd (argument_chain mock ''q'' ''d'' None s0))))"
proof -
  from default_parameters [of mock "''q''" "''d''" None]
  have "\<forall>req \<in> set (chat_requests (new_events s0 (snd (argument_chain mock ''q'' ''d'' None s0)))).
          model req = ''gpt-3.5-turbo'' \<and> temperature req = 0"
    unfolding requests_all_def by blast
  then have "list_all (\<lambda>req. model req = ''gpt-3.5-turbo'' \<and> temperature req = 0)
         (chat_requests (new_events s0 (snd (argument_chain mock ''q'' ''d'' None s0))))"
    by (simp only: list_all_iff)
  moreover
  have "length (chat_requests (new_events s0 (snd (argument_chain mock ''q'' ''d'' None s0)))) = 3"
    by (simp add: mock_chain_requests)
  ultimately show ?thesis by blast
qed

text \<open>
  C10. What \<^verbatim>\<open>critic\<close> does depends on its argument string only. Two calls of
  \<^verbatim>\<open>critic\<close> on the same argument that return, with whatever services and from whatever
  states, make the same chat-completion request, and return the same criticism when the
  API gives the same response. Within a chain the query and the additional description
  do not reach \<^verbatim>\<open>critic\<close>: of two runs of \<^verbatim>\<open>argument_chain\<close> that return, on whatever
  queries and descriptions, each makes three requests, and when the generated arguments
  (the texts of the two first responses) are equal, the second requests, those of
  \<^verbatim>\<open>critic\<close>, are equal, and when moreover the responses to them have the same text, the
  criticisms handed to \<^verbatim>\<open>refiner\<close> (its fourth message) are equal.
\<close>

theorem critic_depends_on_argument_only:
  "(critic E1 argument x1 s1 = (Inr c1, s1') \<longrightarrow> critic E2 argument x2 s2 = (Inr c2, s2') \<longrightarrow>
      chat_requests (new_events s1 s1') = chat_requests (new_events s2 s2')
      \<and> (map snd (chat_calls (new_events s1 s1')) = map snd (chat_calls (new_events s2 s2'))
           \<longrightarrow> c1 = c2))
   \<and> (argument_chain E1 query1 description1 y1 u1 = (Inr v1, u1') \<longrightarrow>
      argument_chain E2 query2 description2 y2 u2 = (Inr v2, u2') \<longrightarrow>
      (\<exists>g1 a1 k1 b1 f1 o1 g2 a2 k2 b2 f2 o2.
         chat_calls (new_events u1 u1') = [(g1, Inr a1), (k1, Inr b1), (f1, Inr o1)]
         \<and> chat_calls (new_events u2 u2') = [(g2, Inr a2), (k2, Inr b2), (f2, Inr o2)]
         \<and> (first_content a1 = first_content a2 \<longrightarrow>
              k1 = k2
              \<and> (first_content b1 = first_content b2 \<longrightarrow>
                   messages f1 ! 3 = messages f2 ! 3))))"
proof (intro conjI impI)
  assume 1: "critic E1 argument x1 s1 = (Inr c1, s1')"
    and 2: "critic E2 argument x2 s2 = (Inr c2, s2')"
  from 1 obtain r1 where k1: "chat_calls (new_events s1 s1') =
       [(\<lparr>model = ''gpt-3.5-turbo'',
          messages =
            [[(''role'', ''system''),
              (''content'', ''You are a critic.''
                 @ [CHR 0x0A]
                 @ ''What unresolved questions or criticism do you have after reading the following argument?''
                 @ ''Provide a concise summary of your feedback.'')],
             [(''role'', ''system''),
              (''content'', argument)]],
          temperature = 0\<rparr>, Inr r1)]"
    and c1: "first_content r1 = Some c1"
    by (rule critic_chat_calls)
  from 2 obtain r2 where k2: "chat_calls (new_events s2 s2') =
       [(\<lparr>model = ''gpt-3.5-turbo'',
          messages =
            [[(''role'', ''system''),
              (''content'', ''You are a critic.''
                 @ [CHR 0x0A]
                 @ ''What unresolved questions or criticism do you have after reading the following argument?''
                 @ ''Provide a concise summary of your feedback.'')],
             [(''role'', ''system''),
              (''content'', argument)]],
          temperature = 0\<rparr>, Inr r2)]"
    and c2: "first_content r2 = Some c2"
    by (rule critic_chat_calls)
  show "chat_requests (new_events s1 s1') = chat_requests (new_events s2 s2')"
    by (simp only: chat_requests_def k1 k2 list.map fst_conv)
  assume "map snd (chat_calls (new_events s1 s1')) = map snd (chat_calls (new_events s2 s2'))"
  then have "r1 = r2" by (simp only: k1 k2 list.map snd_conv list.inject sum.inject)
  with c1 c2 show "c1 = c2" by simp
next
  assume 1: "argument_chain E1 query1 description1 y1 u1 = (Inr v1, u1')"
    and 2: "argument_chain E2 query2 description2 y2 u2 = (Inr v2, u2')"
  from 1 obtain g1 a1 t1 k1 b1 c1 f1 o1 where
    calls1: "chat_calls (new_events u1 u1') = [(g1, Inr a1), (k1, Inr b1), (f1, Inr o1)]"
    and a1: "first_content a1 = Some t1"
    and k1: "k1 = \<lparr>model = ''gpt-3.5-turbo'',
              messages =
                [[(''role'', ''system''),
                  (''content'', ''You are a critic.''
                     @ [CHR 0x0A]
                     @ ''What unresolved questions or criticism do you have after reading the following argument?''
                     @ ''Provide a concise summary of your feedback.'')],
                 [(''role'', ''system''),
                  (''content'', t1)]],
              temperature = 0\<rparr>"
    and b1: "first_content b1 = Some c1"
    and f1: "messages f1 ! 3 = [(''role'', ''user''), (''content'', c1)]"
    by (rule argument_chain_chat_calls)
  from 2 obtain g2 a2 t2 k2 b2 c2 f2 o2 where
    calls2: "chat_calls (new_events u2 u2') = [(g2, Inr a2), (k2, Inr b2), (f2, Inr o2)]"
    and a2: "first_content a2 = Some t2"
    and k2: "k2 = \<lparr>model = ''gpt-3.5-turbo'',
              messages =
                [[(''role'', ''system''),
                  (''content'', ''You are a critic.''
                     @ [CHR 0x0A]
                     @ ''What unresolved questions or criticism do you have after reading the following argument?''
                     @ ''Provide a concise summary of your feedback.'')],
                 [(''role'', ''system''),
                  (''content'', t2)]],
              temperature = 0\<rparr>"
    and b2: "first_content b2 = Some c2"
    and f2: "messages f2 ! 3 = [(''role'', ''user''), (''content'', c2)]"
    by (rule argument_chain_chat_calls)
  have "first_content a1 = first_content a2 \<longrightarrow>
          k1 = k2 \<and> (first_content b1 = first_content b2 \<longrightarrow> messages f1 ! 3 = messages f2 ! 3)"
    using a1 a2 k1 k2 b1 b2 f1 f2 by simp
  with calls1 calls2
  show "\<exists>g1 a1 k1 b1 f1 o1 g2 a2 k2 b2 f2 o2.
         chat_calls (new_events u1 u1') = [(g1, Inr a1), (k1, Inr b1), (f1, Inr o1)]
         \<and> chat_calls (new_events u2 u2') = [(g2, Inr a2), (k2, Inr b2), (f2, Inr o2)]
         \<and> (first_content a1 = first_content a2 \<longrightarrow>
              k1 = k2
              \<and> (first_content b1 = first_content b2 \<longrightarrow>
                   messages f1 ! 3 = messages f2 ! 3))"
    by blast
qed


theorem critic_depends_on_argument_only_witness:
  "critic mock ''a'' None \<lparr>events = [], world = Suc 0, tracer = 0\<rparr>
     = (Inr ''B'', snd (critic mock ''a'' None \<lparr>events = [], world = Suc 0, tracer = 0\<rparr>))
   \<and> critic mock ''a'' None \<lparr>events = [Now ''T''], world = Suc 0, tracer = 5\<rparr>
     = (Inr ''B'', snd (critic mock ''a'' None \<lparr>events = [Now ''T''], world = Suc 0, tracer = 5\<rparr>))
   \<and> chat_requests (new_events \<lparr>events = [], world = Suc 0, tracer = 0\<rparr>
         (snd (critic mock ''a'' None \<lparr>events = [], world = Suc 0, tracer = 0\<rparr>)))
     = chat_requests (new_events \<lparr>events = [Now ''T''], world = Suc 0, tracer = 5\<rparr>
         (snd (critic mock ''a'' None \<lparr>events = [Now ''T''], world = Suc 0, tracer = 5\<rparr>)))
   \<and> argument_chain mock ''q'' ''d'' None s0
     = (Inr ''C'', snd (argument_chain mock ''q'' ''d'' None s0))
   \<and> argument_chain mock ''p'' ''e'' None s0
     = (Inr ''C'', snd (argument_chain mock ''p'' ''e'' None s0))
   \<and> (\<exists>g1 a1 k1 b1 f1 o1 g2 a2 k2 b2 f2 o2.
         chat_calls (new_events s0 (snd (argument_chain mock ''q'' ''d'' None s0)))
           = [(g1, Inr a1), (k1, Inr b1), (f1, Inr o1)]
         \<and> chat_calls (new_events s0 (snd (argument_chain mock ''p'' ''e'' None s0)))
           = [(g2, Inr a2), (k2, Inr b2), (f2, Inr o2)]
         \<and> (first_content a1 = first_content a2 \<longrightarrow>
              k1 = k2
              \<and> (first_content b1 = first_content b2 \<longrightarrow>
                   messages f1 ! 3 = messages f2 ! 3)))"
proof -
  have 1: "critic mock ''a'' None \<lparr>events = [], world = Suc 0, tracer = 0\<rparr>
     = (Inr ''B'', snd (critic mock ''a'' None \<lparr>events = [], world = Suc 0, tracer = 0\<rparr>))"
    by (simp add: mock_critic)
  have 2: "critic mock ''a'' None \<lparr>events = [Now ''T''], world = Suc 0, tracer = 5\<rparr>
     = (Inr ''B'', snd (critic mock ''a'' None \<lparr>events = [Now ''T''], world = Suc 0, tracer = 5\<rparr>))"
    by (simp add: mock_critic)
  have 3: "argument_chain mock ''q'' ''d'' None s0
     = (Inr ''C'', snd (argument_chain mock ''q'' ''d'' None s0))"
    by (simp add: mock_argument_chain)
  have 4: "argument_chain mock ''p'' ''e'' None s0
     = (Inr ''C'', snd (argument_chain mock ''p'' ''e'' None s0))"
    by (simp add: mock_argument_chain)
  note inst = critic_depends_on_argument_only
    [where ?E1.0 = mock and ?E2.0 = mock and argument = "''a''" and ?x1.0 = None and ?x2.0 = None
       and ?s1.0 = "\<lparr>events = [], world = Suc 0, tracer = 0\<rparr>"
       and ?s2.0 = "\<lparr>events = [Now ''T''], world = Suc 0, tracer = 5\<rparr>"
       and ?c1.0 = "''B''" and ?c2.0 = "''B''"
       and s1' = "snd (critic mock ''a'' None \<lparr>events = [], world = Suc 0, tracer = 0\<rparr>)"
       and s2' = "snd (critic mock ''a'' None \<lparr>events = [Now ''T''], world = Suc 0, tracer = 5\<rparr>)"
       and ?query1.0 = "''q''" and ?description1.0 = "''d''" and ?y1.0 = None and ?u1.0 = s0
       and ?v1.0 = "''C''" and u1' = "snd (argument_chain mock ''q'' ''d'' None s0)"
       and ?query2.0 = "''p''" and ?description2.0 = "''e''" and ?y2.0 = None and ?u2.0 = s0
       and ?v2.0 = "''C''" and u2' = "snd (argument_chain mock ''p'' ''e'' None s0)"]
  from inst 1 2 3 4 show ?thesis by blast
qed

end
